theory Spec2Isabelle
  imports Main "HOL-Library.Word"
begin

section \<open>Network commissioning cluster and timed request: a shallow embedding\<close>

text \<open>
  The development follows \<^verbatim>\<open>src/app/clusters/network-commissioning/network-commissioning.cpp\<close>
  and \<^verbatim>\<open>src/app/TimedRequest.cpp\<close>. Byte buffers are lists of 8-bit words, the global
  table \<^verbatim>\<open>sNetworks\<close> is passed in and returned, and the calls into the device layer are
  recorded in a trace whose results are given by a parameter.
\<close>

subsection \<open>Build configuration and constants\<close>

type_synonym ByteSpan = "8 word list"

text \<open>
  The preprocessor symbols the file branches on. \<^verbatim>\<open>CHIP_DEVICE_LAYER_TARGET\<close> is tested
  with \<^verbatim>\<open>defined\<close>, the other two by value; the last field is the value of the macro
  \<^verbatim>\<open>CHIP_CLUSTER_NETWORK_COMMISSIONING_MAX_NETWORKS\<close> (4 when not set by the build).
\<close>

record build_config =
  CHIP_DEVICE_CONFIG_ENABLE_THREAD :: bool
  CHIP_DEVICE_LAYER_TARGET :: bool
  CHIP_DEVICE_LAYER_TARGET_LINUX :: bool
  CHIP_CLUSTER_NETWORK_COMMISSIONING_MAX_NETWORKS :: nat

definition kMaxNetworkIDLen :: nat where
  "kMaxNetworkIDLen = 32"

definition kMaxThreadDatasetLen :: nat where
  "kMaxThreadDatasetLen = 254"

definition kMaxWiFiSSIDLen :: nat where
  "kMaxWiFiSSIDLen = 32"

definition kMaxWiFiCredentialsLen :: nat where
  "kMaxWiFiCredentialsLen = 64"

text \<open>\<^verbatim>\<open>constexpr uint8_t kMaxNetworks\<close>: the macro's value, held in eight bits.\<close>

definition kMaxNetworks :: "build_config \<Rightarrow> nat" where
  "kMaxNetworks cfg = CHIP_CLUSTER_NETWORK_COMMISSIONING_MAX_NETWORKS cfg mod 256"

text \<open>
  Modelled from the spec: \<^verbatim>\<open>Thread::kSizeExtendedPanId\<close> is declared in
  \<^verbatim>\<open>lib/support/ThreadOperationalDataset.h\<close>, which is not among the sources; the
  specification gives the extended PAN ID as 8 bytes.
\<close>

definition kSizeExtendedPanId :: nat where
  "kSizeExtendedPanId = 8"

subsection \<open>Data model\<close>

datatype NetworkType = kUndefined | kWiFi | kThread | kEthernet

record WiFiNetworkInfo =
  mSSID :: "8 word list"
  mSSIDLen :: "8 word"
  mCredentials :: "8 word list"
  mCredentialsLen :: "8 word"

text \<open>
  \<^verbatim>\<open>union NetworkData\<close>. The member \<^verbatim>\<open>mThread\<close> is an object of the class
  \<^verbatim>\<open>Thread::OperationalDataset\<close>, kept here as the bytes of its state. The two members
  share storage in the program; the model keeps one field for each, and no statement below
  reads a member after the other one has been written.
\<close>

record NetworkData =
  mThread :: "8 word list"
  mWiFi :: WiFiNetworkInfo

record NetworkInfo =
  mNetworkID :: "8 word list"
  mNetworkIDLen :: "8 word"
  mEnabled :: "8 word"
  mNetworkType :: NetworkType
  mData :: NetworkData

text \<open>The sizes of the arrays, as \<^verbatim>\<open>sizeof\<close> gives them.\<close>

definition sizeof_mSSID :: nat where
  "sizeof_mSSID = kMaxWiFiSSIDLen + 1"

definition sizeof_mCredentials :: nat where
  "sizeof_mCredentials = kMaxWiFiCredentialsLen"

definition sizeof_mNetworkID :: nat where
  "sizeof_mNetworkID = kMaxNetworkIDLen"

datatype NetworkCommissioningStatus =
  kSuccess | kOutOfRange | kBoundsExceeded | kNetworkIDNotFound | kUnknownError

datatype CHIP_ERROR =
  CHIP_NO_ERROR
  | CHIP_ERROR_INVALID_MESSAGE_TYPE
  | CHIP_ERROR_IM_STATUS_CODE_RECEIVED
  | CHIP_ERROR_NOT_IMPLEMENTED
  | CHIP_ERROR_UNSUPPORTED_CHIP_FEATURE
  | CHIP_ERROR_NO_MEMORY
  | CHIP_ERROR_OTHER nat

subsection \<open>The collaborators outside the file\<close>

text \<open>
  The calls the cluster makes into the device layer. A trace lists them in the order
  they were issued.
\<close>

datatype PlatformCall =
  SetThreadEnabled bool
  | SetThreadProvision ByteSpan
  | ProvisionWiFi "8 word list" "8 word list"
  | ConnectNetworkForOperational ByteSpan

text \<open>
  The functions whose bodies live outside the file are parameters: the three member
  functions of \<^verbatim>\<open>Thread::OperationalDataset\<close> that are used (\<^verbatim>\<open>Init\<close> takes the
  input span and the object's old state and returns the error and the new state;
  \<^verbatim>\<open>GetExtendedPanId\<close> returns the error and the array of \<^verbatim>\<open>kSizeExtendedPanId\<close> bytes
  it fills), and the result the platform gives to a call, which may depend on every call
  issued before it.
\<close>

record collaborators =
  dataset_Init :: "ByteSpan \<Rightarrow> 8 word list \<Rightarrow> CHIP_ERROR \<times> 8 word list"
  dataset_GetExtendedPanId :: "8 word list \<Rightarrow> CHIP_ERROR \<times> 8 word list"
  dataset_AsByteSpan :: "8 word list \<Rightarrow> ByteSpan"
  platform_result :: "PlatformCall list \<Rightarrow> PlatformCall \<Rightarrow> CHIP_ERROR"

definition issue :: "collaborators \<Rightarrow> PlatformCall \<Rightarrow> PlatformCall list
    \<Rightarrow> CHIP_ERROR \<times> PlatformCall list" where
  "issue env c tr = (platform_result env tr c, tr @ [c])"

subsection \<open>Memory helpers\<close>

text \<open>
  \<^verbatim>\<open>memcpy(dst, src, n)\<close> on the first \<open>n\<close> bytes; every use below comes after a
  check, or a \<^verbatim>\<open>static_assert\<close>, that \<open>n\<close> is at most the size of the destination.
  \<^verbatim>\<open>memcmp(a, b, n) == 0\<close> compares the first \<open>n\<close> bytes; the connect command calls it
  with \<open>n\<close> equal to \<^verbatim>\<open>mNetworkIDLen\<close>, which stays within \<^verbatim>\<open>mNetworkID\<close> on the tables
  the statements about that command are made for.
\<close>

definition memcpy :: "8 word list \<Rightarrow> 8 word list \<Rightarrow> nat \<Rightarrow> 8 word list" where
  "memcpy dst src n = take n src @ drop n dst"

definition memcmp_eq :: "8 word list \<Rightarrow> 8 word list \<Rightarrow> nat \<Rightarrow> bool" where
  "memcmp_eq a b n = (take n a = take n b)"

text \<open>\<^verbatim>\<open>CanCastTo<uint8_t>\<close> of a \<^verbatim>\<open>size_t\<close>.\<close>

definition CanCastTo_uint8 :: "nat \<Rightarrow> bool" where
  "CanCastTo_uint8 n = (n \<le> 255)"

definition wifi_upd :: "(WiFiNetworkInfo \<Rightarrow> WiFiNetworkInfo) \<Rightarrow> NetworkInfo \<Rightarrow> NetworkInfo" where
  "wifi_upd f n = n\<lparr>mData := (mData n)\<lparr>mWiFi := f (mWiFi (mData n))\<rparr>\<rparr>"

definition thread_upd :: "8 word list \<Rightarrow> NetworkInfo \<Rightarrow> NetworkInfo" where
  "thread_upd d n = n\<lparr>mData := (mData n)\<lparr>mThread := d\<rparr>\<rparr>"

subsection \<open>AddOrUpdateThreadNetwork\<close>

text \<open>
  The body of the loop for the slot that is \<^verbatim>\<open>kUndefined\<close>. \<^verbatim>\<open>err\<close> holds
  \<^verbatim>\<open>kBoundsExceeded\<close> when the body is entered; \<^verbatim>\<open>SuccessOrExit\<close> leaves through
  \<^verbatim>\<open>exit\<close> without assigning it.
\<close>

definition AddThread_slot :: "collaborators \<Rightarrow> ByteSpan \<Rightarrow> NetworkInfo
    \<Rightarrow> NetworkCommissioningStatus \<times> NetworkInfo" where
  "AddThread_slot env operationalDataset n0 =
    (let (error, dataset) = dataset_Init env operationalDataset (mThread (mData n0));
         n1 = thread_upd dataset n0
     in if error \<noteq> CHIP_NO_ERROR then (kUnknownError, n1)
        else
          let (e2, extendedPanId) = dataset_GetExtendedPanId env dataset
          in if e2 \<noteq> CHIP_NO_ERROR then (kBoundsExceeded, n1)
             else
               let n2 = n1\<lparr>mNetworkID := memcpy (mNetworkID n1) extendedPanId kSizeExtendedPanId\<rparr>;
                   n3 = n2\<lparr>mNetworkIDLen := of_nat kSizeExtendedPanId\<rparr>;
                   n4 = n3\<lparr>mNetworkType := kThread\<rparr>;
                   n5 = n4\<lparr>mEnabled := 0\<rparr>
               in (kSuccess, n5))"

function AddThread_loop :: "build_config \<Rightarrow> collaborators \<Rightarrow> ByteSpan \<Rightarrow> nat
    \<Rightarrow> NetworkInfo list \<Rightarrow> NetworkCommissioningStatus \<times> NetworkInfo list" where
  "AddThread_loop cfg env operationalDataset i sNetworks =
    (if i < kMaxNetworks cfg then
       if mNetworkType (sNetworks ! i) = kUndefined then
         (let (err, n) = AddThread_slot env operationalDataset (sNetworks ! i)
          in (err, sNetworks[i := n]))
       else AddThread_loop cfg env operationalDataset (i + 1) sNetworks
     else (kBoundsExceeded, sNetworks))"
  by pat_completeness auto
termination
  by (relation "measure (\<lambda>(cfg, env, d, i, t). kMaxNetworks cfg - i)") auto

declare AddThread_loop.simps [simp del]

text \<open>
  The function returns the \<^verbatim>\<open>networkingStatus\<close> of the response it hands to
  \<^verbatim>\<open>AddResponseData\<close>, and the table.
\<close>

definition OnAddOrUpdateThreadNetworkCommandCallbackInternal ::
  "build_config \<Rightarrow> collaborators \<Rightarrow> ByteSpan \<Rightarrow> 64 word \<Rightarrow> 32 word
    \<Rightarrow> NetworkInfo list \<Rightarrow> NetworkCommissioningStatus \<times> NetworkInfo list" where
  "OnAddOrUpdateThreadNetworkCommandCallbackInternal cfg env operationalDataset breadcrumb timeoutMs sNetworks =
    (if CHIP_DEVICE_CONFIG_ENABLE_THREAD cfg
     then AddThread_loop cfg env operationalDataset 0 sNetworks
     else (kUnknownError, sNetworks))"

subsection \<open>AddOrUpdateWiFiNetwork\<close>

text \<open>
  The body of the loop for the slot that is \<^verbatim>\<open>kUndefined\<close>: each \<^verbatim>\<open>VerifyOrExit\<close>
  that fails leaves with \<^verbatim>\<open>kOutOfRange\<close> and with the writes made before it.
\<close>

definition AddWiFi_slot :: "ByteSpan \<Rightarrow> ByteSpan \<Rightarrow> NetworkInfo
    \<Rightarrow> NetworkCommissioningStatus \<times> NetworkInfo" where
  "AddWiFi_slot ssid credentials n0 =
    (if \<not> length ssid \<le> sizeof_mSSID then (kOutOfRange, n0)
     else
       let n1 = wifi_upd (\<lambda>w. w\<lparr>mSSID := memcpy (mSSID w) ssid (length ssid)\<rparr>) n0
       in if \<not> CanCastTo_uint8 (length ssid) then (kOutOfRange, n1)
     else
       let n2 = wifi_upd (\<lambda>w. w\<lparr>mSSIDLen := of_nat (length ssid)\<rparr>) n1
       in if \<not> length credentials \<le> sizeof_mCredentials then (kOutOfRange, n2)
     else
       let n3 = wifi_upd (\<lambda>w. w\<lparr>mCredentials :=
                  memcpy (mCredentials w) credentials (length credentials)\<rparr>) n2
       in if \<not> CanCastTo_uint8 (length ssid) then (kOutOfRange, n3)
     else
       let n4 = wifi_upd (\<lambda>w. w\<lparr>mCredentialsLen := of_nat (length credentials)\<rparr>) n3
       in if \<not> length ssid \<le> sizeof_mNetworkID then (kOutOfRange, n4)
     else
       let n5 = n4\<lparr>mNetworkID :=
                  memcpy (mNetworkID n4) (mSSID (mWiFi (mData n4))) (length ssid)\<rparr>
       in if \<not> CanCastTo_uint8 (length ssid) then (kOutOfRange, n5)
     else
       let n6 = n5\<lparr>mNetworkIDLen := of_nat (length ssid)\<rparr>;
           n7 = n6\<lparr>mNetworkType := kWiFi\<rparr>;
           n8 = n7\<lparr>mEnabled := 0\<rparr>
       in (kSuccess, n8))"

function AddWiFi_loop :: "build_config \<Rightarrow> ByteSpan \<Rightarrow> ByteSpan \<Rightarrow> nat
    \<Rightarrow> NetworkInfo list \<Rightarrow> NetworkCommissioningStatus \<times> NetworkInfo list" where
  "AddWiFi_loop cfg ssid credentials i sNetworks =
    (if i < kMaxNetworks cfg then
       if mNetworkType (sNetworks ! i) = kUndefined then
         (let (err, n) = AddWiFi_slot ssid credentials (sNetworks ! i)
          in (err, sNetworks[i := n]))
       else AddWiFi_loop cfg ssid credentials (i + 1) sNetworks
     else (kBoundsExceeded, sNetworks))"
  by pat_completeness auto
termination
  by (relation "measure (\<lambda>(cfg, s, c, i, t). kMaxNetworks cfg - i)") auto

declare AddWiFi_loop.simps [simp del]

definition OnAddOrUpdateWiFiNetworkCommandCallbackInternal ::
  "build_config \<Rightarrow> ByteSpan \<Rightarrow> ByteSpan \<Rightarrow> 64 word \<Rightarrow> 32 word
    \<Rightarrow> NetworkInfo list \<Rightarrow> NetworkCommissioningStatus \<times> NetworkInfo list" where
  "OnAddOrUpdateWiFiNetworkCommandCallbackInternal cfg ssid credentials breadcrumb timeoutMs sNetworks =
    (if CHIP_DEVICE_LAYER_TARGET cfg
     then AddWiFi_loop cfg ssid credentials 0 sNetworks
     else (kUnknownError, sNetworks))"

subsection \<open>ConnectNetwork\<close>

text \<open>
  \<^verbatim>\<open>ReturnErrorOnFailure\<close> returns the error of the call at once; \<^verbatim>\<open>mEnabled\<close> is
  written only when control reaches the end of the \<^verbatim>\<open>switch\<close>.
\<close>

definition DoConnectNetwork :: "build_config \<Rightarrow> collaborators \<Rightarrow> NetworkInfo
    \<Rightarrow> PlatformCall list \<Rightarrow> CHIP_ERROR \<times> NetworkInfo \<times> PlatformCall list" where
  "DoConnectNetwork cfg env network tr =
    (case mNetworkType network of
       kThread \<Rightarrow>
         if CHIP_DEVICE_CONFIG_ENABLE_THREAD cfg then
           (let (e1, tr1) = (if \<not> CHIP_DEVICE_LAYER_TARGET_LINUX cfg
                             then issue env (SetThreadEnabled False) tr
                             else (CHIP_NO_ERROR, tr))
            in if e1 \<noteq> CHIP_NO_ERROR then (e1, network, tr1)
               else
                 let (e2, tr2) = issue env
                       (SetThreadProvision (dataset_AsByteSpan env (mThread (mData network)))) tr1
                 in if e2 \<noteq> CHIP_NO_ERROR then (e2, network, tr2)
                    else
                      let (e3, tr3) = issue env (SetThreadEnabled True) tr2
                      in if e3 \<noteq> CHIP_NO_ERROR then (e3, network, tr3)
                         else (CHIP_NO_ERROR, network\<lparr>mEnabled := 1\<rparr>, tr3))
         else (CHIP_ERROR_UNSUPPORTED_CHIP_FEATURE, network, tr)
     | kWiFi \<Rightarrow>
         if CHIP_DEVICE_LAYER_TARGET cfg then
           (let (e1, tr1) = issue env (ProvisionWiFi (mSSID (mWiFi (mData network)))
                                          (mCredentials (mWiFi (mData network)))) tr
            in if e1 \<noteq> CHIP_NO_ERROR then (e1, network, tr1)
               else (CHIP_NO_ERROR, network\<lparr>mEnabled := 1\<rparr>, tr1))
         else (CHIP_ERROR_UNSUPPORTED_CHIP_FEATURE, network, tr)
     | kEthernet \<Rightarrow> (CHIP_ERROR_NOT_IMPLEMENTED, network, tr)
     | kUndefined \<Rightarrow> (CHIP_ERROR_NOT_IMPLEMENTED, network, tr))"

text \<open>The test of the \<^verbatim>\<open>if\<close> in the loop of the connect command, in its order.\<close>

definition id_matches :: "NetworkInfo \<Rightarrow> ByteSpan \<Rightarrow> bool" where
  "id_matches n networkID =
    (unat (mNetworkIDLen n) = length networkID \<and>
     mNetworkType n \<noteq> kUndefined \<and>
     memcmp_eq (mNetworkID n) networkID (length networkID))"

function Connect_loop :: "build_config \<Rightarrow> collaborators \<Rightarrow> ByteSpan \<Rightarrow> nat
    \<Rightarrow> NetworkInfo list \<Rightarrow> PlatformCall list
    \<Rightarrow> NetworkCommissioningStatus \<times> NetworkInfo list \<times> PlatformCall list" where
  "Connect_loop cfg env networkID networkSeq sNetworks tr =
    (if networkSeq < kMaxNetworks cfg then
       if id_matches (sNetworks ! networkSeq) networkID then
         (let (e, n, tr') = DoConnectNetwork cfg env (sNetworks ! networkSeq) tr
          in if e = CHIP_NO_ERROR then (kSuccess, sNetworks[networkSeq := n], tr')
             else (kUnknownError, sNetworks[networkSeq := n], tr'))
       else Connect_loop cfg env networkID (networkSeq + 1) sNetworks tr
     else (kNetworkIDNotFound, sNetworks, tr))"
  by pat_completeness auto
termination
  by (relation "measure (\<lambda>(cfg, env, d, i, t, tr). kMaxNetworks cfg - i)") auto

declare Connect_loop.simps [simp del]

definition OnConnectNetworkCommandCallbackInternal ::
  "build_config \<Rightarrow> collaborators \<Rightarrow> ByteSpan \<Rightarrow> 64 word \<Rightarrow> 32 word
    \<Rightarrow> NetworkInfo list \<Rightarrow> PlatformCall list
    \<Rightarrow> NetworkCommissioningStatus \<times> NetworkInfo list \<times> PlatformCall list" where
  "OnConnectNetworkCommandCallbackInternal cfg env networkID breadcrumb timeoutMs sNetworks tr =
    (let (err, t', tr') = Connect_loop cfg env networkID 0 sNetworks tr
     in if err = kSuccess then (err, t', tr' @ [ConnectNetworkForOperational networkID])
        else (err, t', tr'))"

subsection \<open>TimedRequest::HandleResponse\<close>

datatype MsgType = StatusResponse | TimedRequest | OtherMsgType nat

datatype Status = Success | OtherStatus nat

record StatusIB =
  mStatus :: Status

text \<open>
  \<^verbatim>\<open>PayloadHeader::HasMessageType\<close> and \<^verbatim>\<open>StatusResponse::ProcessStatusResponse\<close> are
  declared outside the file and are parameters; the second returns its error and the
  status object it was given by reference. The function returns its error and that object.
\<close>

definition HandleResponse ::
  "('h \<Rightarrow> MsgType \<Rightarrow> bool) \<Rightarrow> ('p \<Rightarrow> StatusIB \<Rightarrow> CHIP_ERROR \<times> StatusIB)
    \<Rightarrow> 'h \<Rightarrow> 'p \<Rightarrow> StatusIB \<Rightarrow> CHIP_ERROR \<times> StatusIB" where
  "HandleResponse HasMessageType ProcessStatusResponse aPayloadHeader aPayload aStatusIB =
    (if \<not> HasMessageType aPayloadHeader StatusResponse
     then (CHIP_ERROR_INVALID_MESSAGE_TYPE, aStatusIB)
     else
       let (e, st) = ProcessStatusResponse aPayload aStatusIB
       in if e \<noteq> CHIP_NO_ERROR then (e, st)
          else if \<not> mStatus st = Success then (CHIP_ERROR_IM_STATUS_CODE_RECEIVED, st)
          else (CHIP_NO_ERROR, st))"

subsection \<open>Vocabulary of the statements\<close>

text \<open>The identifier a slot holds: the first \<^verbatim>\<open>mNetworkIDLen\<close> bytes of \<^verbatim>\<open>mNetworkID\<close>.\<close>

definition network_id :: "NetworkInfo \<Rightarrow> 8 word list" where
  "network_id n = take (unat (mNetworkIDLen n)) (mNetworkID n)"

text \<open>The arrays of a slot have their declared sizes, and the table has \<^verbatim>\<open>kMaxNetworks\<close> slots.\<close>

definition slot_wf :: "NetworkInfo \<Rightarrow> bool" where
  "slot_wf n =
    (length (mNetworkID n) = sizeof_mNetworkID \<and>
     length (mSSID (mWiFi (mData n))) = sizeof_mSSID \<and>
     length (mCredentials (mWiFi (mData n))) = sizeof_mCredentials)"

definition table_wf :: "build_config \<Rightarrow> NetworkInfo list \<Rightarrow> bool" where
  "table_wf cfg t = (length t = kMaxNetworks cfg \<and> list_all slot_wf t)"

text \<open>The index the scan of an add command stops at: the first slot that is \<^verbatim>\<open>kUndefined\<close>.\<close>

definition first_undefined :: "build_config \<Rightarrow> NetworkInfo list \<Rightarrow> nat option" where
  "first_undefined cfg t =
    find (\<lambda>k. mNetworkType (t ! k) = kUndefined) [0..<kMaxNetworks cfg]"

definition table_full :: "build_config \<Rightarrow> NetworkInfo list \<Rightarrow> bool" where
  "table_full cfg t = (first_undefined cfg t = None)"

text \<open>Every field of a slot but the payload \<^verbatim>\<open>mData\<close>.\<close>

definition same_header :: "NetworkInfo \<Rightarrow> NetworkInfo \<Rightarrow> bool" where
  "same_header a b =
    (mNetworkID a = mNetworkID b \<and> mNetworkIDLen a = mNetworkIDLen b \<and>
     mEnabled a = mEnabled b \<and> mNetworkType a = mNetworkType b)"


definition ids_in_range :: "NetworkInfo list \<Rightarrow> bool" where
  "ids_in_range t =
    list_all (\<lambda>n. mNetworkType n = kUndefined \<or> unat (mNetworkIDLen n) \<le> sizeof_mNetworkID) t"

text \<open>The index the scan of the connect command stops at: the first slot that matches.\<close>

definition first_match :: "build_config \<Rightarrow> NetworkInfo list \<Rightarrow> ByteSpan \<Rightarrow> nat option" where
  "first_match cfg t networkID =
    find (\<lambda>k. id_matches (t ! k) networkID) [0..<kMaxNetworks cfg]"

text \<open>The calls a command added to the trace it was given.\<close>

definition new_calls :: "PlatformCall list \<Rightarrow> PlatformCall list \<Rightarrow> PlatformCall list" where
  "new_calls tr tr' = drop (length tr) tr'"

subsection \<open>Sequences of add commands\<close>

datatype AddCommand =
  AddOrUpdateWiFiNetwork ByteSpan ByteSpan "64 word" "32 word"
  | AddOrUpdateThreadNetwork ByteSpan "64 word" "32 word"

fun invoke_add :: "build_config \<Rightarrow> collaborators \<Rightarrow> AddCommand \<Rightarrow> NetworkInfo list
    \<Rightarrow> NetworkCommissioningStatus \<times> NetworkInfo list" where
  "invoke_add cfg env (AddOrUpdateWiFiNetwork ssid credentials breadcrumb timeoutMs) t =
     OnAddOrUpdateWiFiNetworkCommandCallbackInternal cfg ssid credentials breadcrumb timeoutMs t"
| "invoke_add cfg env (AddOrUpdateThreadNetwork operationalDataset breadcrumb timeoutMs) t =
     OnAddOrUpdateThreadNetworkCommandCallbackInternal cfg env operationalDataset breadcrumb timeoutMs t"

fun run_adds :: "build_config \<Rightarrow> collaborators \<Rightarrow> AddCommand list \<Rightarrow> NetworkInfo list
    \<Rightarrow> NetworkCommissioningStatus list \<times> NetworkInfo list" where
  "run_adds cfg env [] t = ([], t)"
| "run_adds cfg env (c # cs) t =
     (let (s, t') = invoke_add cfg env c t;
          (ss, t'') = run_adds cfg env cs t'
      in (s # ss, t''))"

text \<open>The build compiles the body of the command.\<close>

fun supported :: "build_config \<Rightarrow> AddCommand \<Rightarrow> bool" where
  "supported cfg (AddOrUpdateWiFiNetwork ssid credentials breadcrumb timeoutMs) =
     CHIP_DEVICE_LAYER_TARGET cfg"
| "supported cfg (AddOrUpdateThreadNetwork operationalDataset breadcrumb timeoutMs) =
     CHIP_DEVICE_CONFIG_ENABLE_THREAD cfg"

text \<open>
  A dataset parses when \<^verbatim>\<open>Init\<close> accepts it and the extended PAN ID can be read from
  the result, whatever the object held before.
\<close>

definition dataset_parses :: "collaborators \<Rightarrow> ByteSpan \<Rightarrow> 8 word list \<Rightarrow> bool" where
  "dataset_parses env operationalDataset old =
    (fst (dataset_Init env operationalDataset old) = CHIP_NO_ERROR \<and>
     fst (dataset_GetExtendedPanId env (snd (dataset_Init env operationalDataset old))) = CHIP_NO_ERROR)"

text \<open>A valid add: the build supports the command and the payload is within its bounds.\<close>

fun valid_add :: "build_config \<Rightarrow> collaborators \<Rightarrow> AddCommand \<Rightarrow> bool" where
  "valid_add cfg env (AddOrUpdateWiFiNetwork ssid credentials breadcrumb timeoutMs) =
     (CHIP_DEVICE_LAYER_TARGET cfg \<and> length ssid \<le> kMaxWiFiSSIDLen \<and>
      length credentials \<le> kMaxWiFiCredentialsLen)"
| "valid_add cfg env (AddOrUpdateThreadNetwork operationalDataset breadcrumb timeoutMs) =
     (CHIP_DEVICE_CONFIG_ENABLE_THREAD cfg \<and> (\<forall>old. dataset_parses env operationalDataset old))"

fun added_type :: "AddCommand \<Rightarrow> NetworkType" where
  "added_type (AddOrUpdateWiFiNetwork ssid credentials breadcrumb timeoutMs) = kWiFi"
| "added_type (AddOrUpdateThreadNetwork operationalDataset breadcrumb timeoutMs) = kThread"

subsection \<open>Concrete inputs\<close>

text \<open>
  A build with Wi-Fi and Thread on a target that is not Linux, with the default table
  size, and the same on Linux.
\<close>

definition example_config :: build_config where
  "example_config =
    \<lparr>CHIP_DEVICE_CONFIG_ENABLE_THREAD = True, CHIP_DEVICE_LAYER_TARGET = True,
     CHIP_DEVICE_LAYER_TARGET_LINUX = False,
     CHIP_CLUSTER_NETWORK_COMMISSIONING_MAX_NETWORKS = 4\<rparr>"

definition linux_config :: build_config where
  "linux_config = example_config\<lparr>CHIP_DEVICE_LAYER_TARGET_LINUX := True\<rparr>"

text \<open>A slot of the table as static storage starts: every byte zero.\<close>

definition zero_NetworkInfo :: NetworkInfo where
  "zero_NetworkInfo =
    \<lparr>mNetworkID = replicate 32 0, mNetworkIDLen = 0, mEnabled = 0, mNetworkType = kUndefined,
     mData = \<lparr>mThread = replicate 255 0,
              mWiFi = \<lparr>mSSID = replicate 33 0, mSSIDLen = 0,
                       mCredentials = replicate 64 0, mCredentialsLen = 0\<rparr>\<rparr>\<rparr>"

definition zero_table :: "NetworkInfo list" where
  "zero_table = replicate 4 zero_NetworkInfo"

text \<open>The bytes of "home" and of "secret123".\<close>

definition ssid_home :: ByteSpan where
  "ssid_home = [104, 111, 109, 101]"

definition credentials_secret123 :: ByteSpan where
  "credentials_secret123 = [115, 101, 99, 114, 101, 116, 49, 50, 51]"

text \<open>
  Stand-ins for the collaborators: a dataset object that stores the span it is given
  when the span is at most 254 bytes, and whose extended PAN ID is its first eight bytes
  when it has that many; a platform on which every call succeeds, and one on which the
  named call fails.
\<close>

definition example_env :: collaborators where
  "example_env =
    \<lparr>dataset_Init = (\<lambda>span old. if length span \<le> kMaxThreadDatasetLen
                                   then (CHIP_NO_ERROR, span) else (CHIP_ERROR_OTHER 47, old)),
     dataset_GetExtendedPanId = (\<lambda>d. if 8 \<le> length d then (CHIP_NO_ERROR, take 8 d)
                                       else (CHIP_ERROR_OTHER 16, replicate 8 0)),
     dataset_AsByteSpan = (\<lambda>d. d),
     platform_result = (\<lambda>tr c. CHIP_NO_ERROR)\<rparr>"

definition failing_env :: "PlatformCall \<Rightarrow> collaborators" where
  "failing_env bad =
    example_env\<lparr>platform_result := (\<lambda>tr c. if c = bad then CHIP_ERROR_OTHER 172 else CHIP_NO_ERROR)\<rparr>"

definition dataset_example :: ByteSpan where
  "dataset_example = [1, 2, 3, 4, 5, 6, 7, 8, 9, 10]"

subsection \<open>Frames\<close>

text \<open>
  From \<open>t\<close> to \<open>t'\<close> no slot changed anything but its payload, and no slot but \<open>j\<close>
  changed at all.
\<close>

definition only_payload_of :: "nat \<Rightarrow> NetworkInfo list \<Rightarrow> NetworkInfo list \<Rightarrow> bool" where
  "only_payload_of j t t' =
    (length t' = length t \<and>
     list_all (\<lambda>k. same_header (t' ! k) (t ! k) \<and> (k = j \<or> t' ! k = t ! k)) [0..<length t])"

text \<open>
  From \<open>t\<close> to \<open>t'\<close> no slot changed anything but its \<^verbatim>\<open>mEnabled\<close>, and no slot but
  \<open>j\<close> changed at all.
\<close>

definition only_enabled_of :: "nat \<Rightarrow> NetworkInfo list \<Rightarrow> NetworkInfo list \<Rightarrow> bool" where
  "only_enabled_of j t t' =
    (length t' = length t \<and>
     list_all (\<lambda>k. t' ! k = (t ! k)\<lparr>mEnabled := mEnabled (t' ! k)\<rparr> \<and> (k = j \<or> t' ! k = t ! k))
       [0..<length t])"

text \<open>A decoder of status responses for the examples: an empty payload does not decode.\<close>

definition example_ProcessStatusResponse :: "8 word list \<Rightarrow> StatusIB \<Rightarrow> CHIP_ERROR \<times> StatusIB" where
  "example_ProcessStatusResponse payload st =
    (case payload of
       [] \<Rightarrow> (CHIP_ERROR_OTHER 33, st)
     | b # bs \<Rightarrow> (CHIP_NO_ERROR, st\<lparr>mStatus := (if b = 0 then Success else OtherStatus (unat b))\<rparr>))"

definition example_HasMessageType :: "MsgType \<Rightarrow> MsgType \<Rightarrow> bool" where
  "example_HasMessageType h m = (h = m)"

text \<open>The slot a valid add of "home" leaves, and a table holding four of them.\<close>

definition home_slot :: NetworkInfo where
  "home_slot = snd (AddWiFi_slot ssid_home credentials_secret123 zero_NetworkInfo)"

definition full_table :: "NetworkInfo list" where
  "full_table = replicate 4 home_slot"

text \<open>An SSID of 33 bytes.\<close>

definition ssid_33 :: ByteSpan where
  "ssid_33 = replicate 33 65"

text \<open>What an accepted add leaves in the slot it writes.\<close>

fun holds_profile :: "AddCommand \<Rightarrow> NetworkInfo \<Rightarrow> bool" where
  "holds_profile (AddOrUpdateWiFiNetwork ssid credentials breadcrumb timeoutMs) n =
     (mNetworkType n = kWiFi \<and> mEnabled n = 0 \<and> network_id n = ssid)"
| "holds_profile (AddOrUpdateThreadNetwork operationalDataset breadcrumb timeoutMs) n =
     (mNetworkType n = kThread \<and> mEnabled n = 0 \<and>
      unat (mNetworkIDLen n) = kSizeExtendedPanId)"

text \<open>A dataset of 255 bytes, one more than the example object takes, and one too short
  to hold an extended PAN ID.\<close>

definition dataset_oversize :: ByteSpan where
  "dataset_oversize = replicate 255 7"

definition dataset_short :: ByteSpan where
  "dataset_short = [1, 2, 3]"

text \<open>Two adds for the capacity example, and four that fill the table.\<close>

definition two_adds :: "AddCommand list" where
  "two_adds =
    [AddOrUpdateWiFiNetwork ssid_home credentials_secret123 0 0,
     AddOrUpdateThreadNetwork dataset_example 0 0]"

definition four_adds :: "AddCommand list" where
  "four_adds = two_adds @ two_adds"

subsection \<open>The calls of a Thread connect\<close>

definition thread_disable :: PlatformCall where
  "thread_disable = SetThreadEnabled False"

definition thread_apply :: "collaborators \<Rightarrow> NetworkInfo \<Rightarrow> PlatformCall" where
  "thread_apply env network =
    SetThreadProvision (dataset_AsByteSpan env (mThread (mData network)))"

definition thread_enable :: PlatformCall where
  "thread_enable = SetThreadEnabled True"

text \<open>The calls issued before the provision is applied: none on a Linux target.\<close>

definition thread_prelude :: "build_config \<Rightarrow> PlatformCall list" where
  "thread_prelude cfg = (if CHIP_DEVICE_LAYER_TARGET_LINUX cfg then [] else [thread_disable])"

definition wifi_call :: "NetworkInfo \<Rightarrow> PlatformCall" where
  "wifi_call network =
    ProvisionWiFi (mSSID (mWiFi (mData network))) (mCredentials (mWiFi (mData network)))"

definition is_notifier :: "PlatformCall \<Rightarrow> bool" where
  "is_notifier c = (case c of ConnectNetworkForOperational x \<Rightarrow> True | _ \<Rightarrow> False)"

subsection \<open>Concrete tables for the connect command\<close>

text \<open>
  The slot a valid Thread add leaves, the "home" slot relabelled as Ethernet, and tables
  holding one of them in slot 0.
\<close>

definition thread_slot :: NetworkInfo where
  "thread_slot = snd (AddThread_slot example_env dataset_example zero_NetworkInfo)"

definition ethernet_slot :: NetworkInfo where
  "ethernet_slot = home_slot\<lparr>mNetworkType := kEthernet\<rparr>"

definition home_table :: "NetworkInfo list" where
  "home_table = zero_table[0 := home_slot]"

definition thread_table :: "NetworkInfo list" where
  "thread_table = zero_table[0 := thread_slot]"

definition ethernet_table :: "NetworkInfo list" where
  "ethernet_table = zero_table[0 := ethernet_slot]"

text \<open>A network id no slot holds.\<close>

definition id_absent :: ByteSpan where
  "id_absent = [110, 111, 110, 101]"

section \<open>Properties\<close>

subsection \<open>The scans\<close>

lemma AddWiFi_loop_find:
  "AddWiFi_loop cfg ssid creds i t =
    (case find (\<lambda>k. mNetworkType (t ! k) = kUndefined) [i..<kMaxNetworks cfg] of
       None \<Rightarrow> (kBoundsExceeded, t)
     | Some j \<Rightarrow> (let (e, n) = AddWiFi_slot ssid creds (t ! j) in (e, t[j := n])))"
proof (induction cfg ssid creds i t rule: AddWiFi_loop.induct)
  case (1 cfg ssid creds i t)
  show ?case
  proof (cases "i < kMaxNetworks cfg")
    case False
    then show ?thesis by (simp add: AddWiFi_loop.simps [of cfg ssid creds i t])
  next
    case True
    then have u: "[i..<kMaxNetworks cfg] = i # [Suc i..<kMaxNetworks cfg]"
      by (simp add: upt_conv_Cons)
    show ?thesis
    proof (cases "mNetworkType (t ! i) = kUndefined")
      case True
      with \<open>i < kMaxNetworks cfg\<close> u show ?thesis by (simp add: AddWiFi_loop.simps [of cfg ssid creds i t])
    next
      case False
      with \<open>i < kMaxNetworks cfg\<close> u "1.IH" show ?thesis by (simp add: AddWiFi_loop.simps [of cfg ssid creds i t])
    qed
  qed
qed

lemma AddThread_loop_find:
  "AddThread_loop cfg env ds i t =
    (case find (\<lambda>k. mNetworkType (t ! k) = kUndefined) [i..<kMaxNetworks cfg] of
       None \<Rightarrow> (kBoundsExceeded, t)
     | Some j \<Rightarrow> (let (e, n) = AddThread_slot env ds (t ! j) in (e, t[j := n])))"
proof (induction cfg env ds i t rule: AddThread_loop.induct)
  case (1 cfg env ds i t)
  show ?case
  proof (cases "i < kMaxNetworks cfg")
    case False
    then show ?thesis by (simp add: AddThread_loop.simps [of cfg env ds i t])
  next
    case True
    then have u: "[i..<kMaxNetworks cfg] = i # [Suc i..<kMaxNetworks cfg]"
      by (simp add: upt_conv_Cons)
    show ?thesis
    proof (cases "mNetworkType (t ! i) = kUndefined")
      case True
      with \<open>i < kMaxNetworks cfg\<close> u show ?thesis by (simp add: AddThread_loop.simps [of cfg env ds i t])
    next
      case False
      with \<open>i < kMaxNetworks cfg\<close> u "1.IH" show ?thesis by (simp add: AddThread_loop.simps [of cfg env ds i t])
    qed
  qed
qed

lemma Connect_loop_find:
  "Connect_loop cfg env nid i t tr =
    (case find (\<lambda>k. id_matches (t ! k) nid) [i..<kMaxNetworks cfg] of
       None \<Rightarrow> (kNetworkIDNotFound, t, tr)
     | Some j \<Rightarrow>
         (let (e, n, tr') = DoConnectNetwork cfg env (t ! j) tr
          in (if e = CHIP_NO_ERROR then kSuccess else kUnknownError, t[j := n], tr')))"
proof (induction cfg env nid i t tr rule: Connect_loop.induct)
  case (1 cfg env nid i t tr)
  show ?case
  proof (cases "i < kMaxNetworks cfg")
    case False
    then show ?thesis by (simp add: Connect_loop.simps [of cfg env nid i t tr])
  next
    case True
    then have u: "[i..<kMaxNetworks cfg] = i # [Suc i..<kMaxNetworks cfg]"
      by (simp add: upt_conv_Cons)
    show ?thesis
    proof (cases "id_matches (t ! i) nid")
      case True
      with \<open>i < kMaxNetworks cfg\<close> u show ?thesis
        by (simp add: Connect_loop.simps [of cfg env nid i t tr] split: prod.splits)
    next
      case False
      with \<open>i < kMaxNetworks cfg\<close> u "1.IH" show ?thesis
        by (simp add: Connect_loop.simps [of cfg env nid i t tr])
    qed
  qed
qed


subsection \<open>Evaluation on the concrete inputs\<close>

lemmas size_defs =
  sizeof_mSSID_def sizeof_mCredentials_def sizeof_mNetworkID_def kMaxWiFiSSIDLen_def
  kMaxWiFiCredentialsLen_def kMaxNetworkIDLen_def kMaxThreadDatasetLen_def
  kSizeExtendedPanId_def CanCastTo_uint8_def

lemma kMaxNetworks_example [simp]:
  "kMaxNetworks example_config = 4" "kMaxNetworks linux_config = 4"
  by (simp_all add: kMaxNetworks_def example_config_def linux_config_def)

lemma config_example [simp]:
  "CHIP_DEVICE_LAYER_TARGET example_config"
  "CHIP_DEVICE_CONFIG_ENABLE_THREAD example_config"
  "\<not> CHIP_DEVICE_LAYER_TARGET_LINUX example_config"
  "CHIP_DEVICE_LAYER_TARGET linux_config"
  "CHIP_DEVICE_CONFIG_ENABLE_THREAD linux_config"
  "CHIP_DEVICE_LAYER_TARGET_LINUX linux_config"
  by (simp_all add: example_config_def linux_config_def)

lemma upt_4: "[0..<4] = [0, 1, 2, 3]"
  by (simp add: upt_conv_Cons)

lemma slot_wf_zero: "slot_wf zero_NetworkInfo"
  by (simp add: slot_wf_def zero_NetworkInfo_def size_defs)

lemma table_wf_zero: "table_wf example_config zero_table"
  by (simp add: table_wf_def zero_table_def list_all_iff slot_wf_zero)

lemma zero_table_nth: "k < 4 \<Longrightarrow> zero_table ! k = zero_NetworkInfo"
  by (simp add: zero_table_def)

lemma first_undefined_zero: "first_undefined example_config zero_table = Some 0"
  by (simp add: first_undefined_def upt_4 zero_table_nth zero_NetworkInfo_def)

subsection \<open>The slot bodies of the add commands\<close>

lemma AddWiFi_slot_valid:
  assumes "length ssid \<le> 32" and "length creds \<le> 64"
  shows "fst (AddWiFi_slot ssid creds n) = kSuccess"
    and "mNetworkType (snd (AddWiFi_slot ssid creds n)) = kWiFi"
    and "mEnabled (snd (AddWiFi_slot ssid creds n)) = 0"
    and "network_id (snd (AddWiFi_slot ssid creds n)) = ssid"
    and "unat (mNetworkIDLen (snd (AddWiFi_slot ssid creds n))) = length ssid"
    and "slot_wf n \<Longrightarrow> slot_wf (snd (AddWiFi_slot ssid creds n))"
  using assms
  by (simp_all add: AddWiFi_slot_def Let_def size_defs wifi_upd_def memcpy_def network_id_def
      slot_wf_def unat_of_nat)

lemma AddWiFi_slot_invalid:
  assumes "32 < length ssid \<or> 64 < length creds"
  shows "fst (AddWiFi_slot ssid creds n) = kOutOfRange"
    and "same_header (snd (AddWiFi_slot ssid creds n)) n"
  using assms
  by (auto simp add: AddWiFi_slot_def Let_def size_defs wifi_upd_def same_header_def)

lemma first_undefined_Some:
  "first_undefined cfg t = Some j \<Longrightarrow>
     j < kMaxNetworks cfg \<and> mNetworkType (t ! j) = kUndefined \<and>
     (\<forall>k<j. mNetworkType (t ! k) \<noteq> kUndefined)"
  by (auto simp: first_undefined_def find_Some_iff)

lemma first_undefined_None:
  "first_undefined cfg t = None \<longleftrightarrow> (\<forall>k<kMaxNetworks cfg. mNetworkType (t ! k) \<noteq> kUndefined)"
  by (auto simp: first_undefined_def find_None_iff)

lemma only_payload_of_update:
  assumes "same_header n (t ! j)"
  shows "only_payload_of j t (t[j := n])"
proof -
  have "same_header (t[j := n] ! k) (t ! k) \<and> (k = j \<or> t[j := n] ! k = t ! k)"
    if "k < length t" for k
    using that assms by (cases "k = j") (simp_all add: same_header_def)
  then show ?thesis by (simp add: only_payload_of_def list_all_iff)
qed

lemma home_slot_type: "mNetworkType home_slot = kWiFi"
  by (simp add: home_slot_def AddWiFi_slot_valid ssid_home_def credentials_secret123_def)

lemma first_undefined_full: "first_undefined example_config full_table = None"
  by (simp add: first_undefined_None full_table_def home_slot_type)

lemma OnAddWiFi_unfold:
  "CHIP_DEVICE_LAYER_TARGET cfg \<Longrightarrow>
   OnAddOrUpdateWiFiNetworkCommandCallbackInternal cfg ssid credentials breadcrumb timeoutMs t =
     (case first_undefined cfg t of
        None \<Rightarrow> (kBoundsExceeded, t)
      | Some j \<Rightarrow> (let (e, n) = AddWiFi_slot ssid credentials (t ! j) in (e, t[j := n])))"
  by (simp add: OnAddOrUpdateWiFiNetworkCommandCallbackInternal_def AddWiFi_loop_find
      first_undefined_def)

lemma OnAddThread_unfold:
  "CHIP_DEVICE_CONFIG_ENABLE_THREAD cfg \<Longrightarrow>
   OnAddOrUpdateThreadNetworkCommandCallbackInternal cfg env ds breadcrumb timeoutMs t =
     (case first_undefined cfg t of
        None \<Rightarrow> (kBoundsExceeded, t)
      | Some j \<Rightarrow> (let (e, n) = AddThread_slot env ds (t ! j) in (e, t[j := n])))"
  by (simp add: OnAddOrUpdateThreadNetworkCommandCallbackInternal_def AddThread_loop_find
      first_undefined_def)

subsection \<open>Oversize Wi-Fi input\<close>

text \<open>
  C1, as amended. On a build with Wi-Fi, an add whose SSID is longer than 32 bytes or whose
  credentials are longer than 64 bytes is answered \<^verbatim>\<open>kBoundsExceeded\<close> with the table
  unchanged when no slot is \<^verbatim>\<open>kUndefined\<close>, and \<^verbatim>\<open>kOutOfRange\<close> otherwise; then no slot
  changes its network id, the length of its id, its enabled flag or its type, and no slot
  but the first \<^verbatim>\<open>kUndefined\<close> one changes at all. Nothing is said of the payload of that
  slot.
\<close>

theorem wifi_add_oversize:
  assumes "CHIP_DEVICE_LAYER_TARGET cfg"
    and "table_wf cfg t"
    and "kMaxWiFiSSIDLen < length ssid \<or> kMaxWiFiCredentialsLen < length credentials"
  shows "(case first_undefined cfg t of
            None \<Rightarrow>
              OnAddOrUpdateWiFiNetworkCommandCallbackInternal cfg ssid credentials breadcrumb timeoutMs t
                = (kBoundsExceeded, t)
          | Some j \<Rightarrow>
              fst (OnAddOrUpdateWiFiNetworkCommandCallbackInternal cfg ssid credentials breadcrumb timeoutMs t)
                = kOutOfRange \<and>
              only_payload_of j t
                (snd (OnAddOrUpdateWiFiNetworkCommandCallbackInternal cfg ssid credentials breadcrumb timeoutMs t)))"
proof (cases "first_undefined cfg t")
  case None
  with assms(1) show ?thesis by (simp add: OnAddWiFi_unfold)
next
  case (Some j)
  from assms(3) have bad: "32 < length ssid \<or> 64 < length credentials"
    by (simp add: kMaxWiFiSSIDLen_def kMaxWiFiCredentialsLen_def)
  obtain e n where en: "AddWiFi_slot ssid credentials (t ! j) = (e, n)"
    by (cases "AddWiFi_slot ssid credentials (t ! j)")
  from AddWiFi_slot_invalid [OF bad, of "t ! j"] en
  have e: "e = kOutOfRange" and h: "same_header n (t ! j)" by simp_all
  have "OnAddOrUpdateWiFiNetworkCommandCallbackInternal cfg ssid credentials breadcrumb timeoutMs t
          = (kOutOfRange, t[j := n])"
    using assms(1) Some en e by (simp add: OnAddWiFi_unfold)
  with Some h show ?thesis by (simp add: only_payload_of_update)
qed

theorem wifi_add_oversize_witness:
  "CHIP_DEVICE_LAYER_TARGET example_config \<and> table_wf example_config zero_table \<and>
   kMaxWiFiSSIDLen < length ssid_33 \<and>
   first_undefined example_config zero_table = Some 0 \<and>
   fst (OnAddOrUpdateWiFiNetworkCommandCallbackInternal example_config ssid_33
          credentials_secret123 0 0 zero_table) = kOutOfRange \<and>
   only_payload_of 0 zero_table
     (snd (OnAddOrUpdateWiFiNetworkCommandCallbackInternal example_config ssid_33
          credentials_secret123 0 0 zero_table))"
proof -
  have big: "kMaxWiFiSSIDLen < length ssid_33"
    by (simp add: kMaxWiFiSSIDLen_def ssid_33_def)
  then have "kMaxWiFiSSIDLen < length ssid_33 \<or>
      kMaxWiFiCredentialsLen < length credentials_secret123" ..
  from wifi_add_oversize [OF config_example(1) table_wf_zero this, of 0 0] big
  show ?thesis by (simp add: first_undefined_zero table_wf_zero)
qed

text \<open>
  The claim as written fails twice. With an empty table, an SSID of 33 bytes passes the
  first check (the array \<^verbatim>\<open>mSSID\<close> has 33 bytes) and is copied into the payload of slot 0
  before the check against the 32 bytes of \<^verbatim>\<open>mNetworkID\<close> rejects it. With a full table
  the same input is answered \<^verbatim>\<open>kBoundsExceeded\<close>.
\<close>

theorem wifi_add_oversize_counterexample:
  "fst (OnAddOrUpdateWiFiNetworkCommandCallbackInternal example_config ssid_33
          credentials_secret123 0 0 zero_table) = kOutOfRange \<and>
   mSSID (mWiFi (mData (zero_table ! 0))) = replicate 33 0 \<and>
   mSSID (mWiFi (mData (snd (OnAddOrUpdateWiFiNetworkCommandCallbackInternal example_config
          ssid_33 credentials_secret123 0 0 zero_table) ! 0))) = replicate 33 65 \<and>
   fst (OnAddOrUpdateWiFiNetworkCommandCallbackInternal example_config ssid_33
          credentials_secret123 0 0 full_table) = kBoundsExceeded"
proof -
  have slot: "AddWiFi_slot ssid_33 credentials_secret123 zero_NetworkInfo =
      (kOutOfRange, wifi_upd (\<lambda>w. w\<lparr>mSSID := replicate 33 65, mSSIDLen := 33,
         mCredentials := credentials_secret123 @ replicate 55 0, mCredentialsLen := 9\<rparr>)
         zero_NetworkInfo)"
    by (simp add: AddWiFi_slot_def Let_def size_defs wifi_upd_def memcpy_def ssid_33_def
        credentials_secret123_def zero_NetworkInfo_def)
  have run: "OnAddOrUpdateWiFiNetworkCommandCallbackInternal example_config ssid_33
      credentials_secret123 0 0 zero_table =
      (kOutOfRange, zero_table[0 := snd (AddWiFi_slot ssid_33 credentials_secret123 zero_NetworkInfo)])"
    by (simp add: OnAddWiFi_unfold first_undefined_zero zero_table_nth slot)
  have len: "0 < length zero_table" by (simp add: zero_table_def)
  have a: "mSSID (mWiFi (mData (zero_table ! 0))) = replicate 33 0"
    by (simp add: zero_table_nth zero_NetworkInfo_def)
  have b: "mSSID (mWiFi (mData (snd (OnAddOrUpdateWiFiNetworkCommandCallbackInternal
      example_config ssid_33 credentials_secret123 0 0 zero_table) ! 0))) = replicate 33 65"
    using len by (simp add: run slot wifi_upd_def)
  have c: "fst (OnAddOrUpdateWiFiNetworkCommandCallbackInternal example_config ssid_33
      credentials_secret123 0 0 full_table) = kBoundsExceeded"
    by (simp add: OnAddWiFi_unfold first_undefined_full)
  from run a b c show ?thesis by simp
qed

subsection \<open>The reply to a timed request\<close>

text \<open>
  C6, as amended. \<^verbatim>\<open>HandleResponse\<close> returns \<^verbatim>\<open>CHIP_ERROR_INVALID_MESSAGE_TYPE\<close> when the
  header's message type is not \<^verbatim>\<open>StatusResponse\<close>; otherwise the error of
  \<^verbatim>\<open>ProcessStatusResponse\<close> when decoding the payload fails; otherwise
  \<^verbatim>\<open>CHIP_ERROR_IM_STATUS_CODE_RECEIVED\<close> when the decoded status is not \<^verbatim>\<open>Success\<close>;
  otherwise \<^verbatim>\<open>CHIP_NO_ERROR\<close>.
\<close>

theorem HandleResponse_result:
  "fst (HandleResponse HasMessageType ProcessStatusResponse aPayloadHeader aPayload aStatusIB) =
    (if \<not> HasMessageType aPayloadHeader StatusResponse then CHIP_ERROR_INVALID_MESSAGE_TYPE
     else if fst (ProcessStatusResponse aPayload aStatusIB) \<noteq> CHIP_NO_ERROR
       then fst (ProcessStatusResponse aPayload aStatusIB)
     else if mStatus (snd (ProcessStatusResponse aPayload aStatusIB)) \<noteq> Success
       then CHIP_ERROR_IM_STATUS_CODE_RECEIVED
     else CHIP_NO_ERROR)"
  by (simp add: HandleResponse_def split: prod.splits)

text \<open>
  The claim as written leaves the decoding failure out: a reply of type
  \<^verbatim>\<open>StatusResponse\<close> whose payload does not decode is answered with the decoder's error,
  which is neither of the two named errors nor success, while the status object still
  holds \<^verbatim>\<open>Success\<close>.
\<close>

theorem HandleResponse_counterexample:
  "example_HasMessageType StatusResponse StatusResponse \<and>
   fst (HandleResponse example_HasMessageType example_ProcessStatusResponse StatusResponse []
          \<lparr>mStatus = Success\<rparr>) = CHIP_ERROR_OTHER 33 \<and>
   mStatus (snd (HandleResponse example_HasMessageType example_ProcessStatusResponse
          StatusResponse [] \<lparr>mStatus = Success\<rparr>)) = Success"
  by (simp add: HandleResponse_def example_HasMessageType_def example_ProcessStatusResponse_def)

subsection \<open>The Thread slot body and a single add\<close>

lemma AddThread_slot_parses:
  assumes "dataset_parses env ds (mThread (mData n))"
  shows "fst (AddThread_slot env ds n) = kSuccess"
    and "mNetworkType (snd (AddThread_slot env ds n)) = kThread"
    and "mEnabled (snd (AddThread_slot env ds n)) = 0"
    and "unat (mNetworkIDLen (snd (AddThread_slot env ds n))) = kSizeExtendedPanId"
  using assms
  by (simp_all add: AddThread_slot_def dataset_parses_def Let_def thread_upd_def
      kSizeExtendedPanId_def case_prod_beta)

lemma AddThread_slot_malformed:
  assumes "\<not> dataset_parses env ds (mThread (mData n))"
  shows "same_header (snd (AddThread_slot env ds n)) n"
  using assms
  by (auto simp add: AddThread_slot_def dataset_parses_def Let_def thread_upd_def
      same_header_def case_prod_beta)

lemma AddThread_slot_Init_fails:
  assumes "fst (dataset_Init env ds (mThread (mData n))) \<noteq> CHIP_NO_ERROR"
  shows "fst (AddThread_slot env ds n) = kUnknownError"
  using assms
  by (simp add: AddThread_slot_def Let_def case_prod_beta)

lemma invoke_add_full:
  assumes "supported cfg c" and "first_undefined cfg t = None"
  shows "invoke_add cfg env c t = (kBoundsExceeded, t)"
  using assms by (cases c) (simp_all add: OnAddWiFi_unfold OnAddThread_unfold)

lemma invoke_add_valid:
  assumes "valid_add cfg env c" and "first_undefined cfg t = Some j"
  shows "\<exists>n. invoke_add cfg env c t = (kSuccess, t[j := n]) \<and> holds_profile c n"
proof (cases c)
  case (AddOrUpdateWiFiNetwork ssid cr b tm)
  with assms(1) have v: "CHIP_DEVICE_LAYER_TARGET cfg" "length ssid \<le> 32" "length cr \<le> 64"
    by (simp_all add: kMaxWiFiSSIDLen_def kMaxWiFiCredentialsLen_def)
  obtain e n where en: "AddWiFi_slot ssid cr (t ! j) = (e, n)"
    by (cases "AddWiFi_slot ssid cr (t ! j)")
  with AddWiFi_slot_valid [OF v(2,3), of "t ! j"]
  have "e = kSuccess" "mNetworkType n = kWiFi" "mEnabled n = 0" "network_id n = ssid"
    by simp_all
  with AddOrUpdateWiFiNetwork v(1) assms(2) en show ?thesis
    by (intro exI [of _ n]) (simp add: OnAddWiFi_unfold)
next
  case (AddOrUpdateThreadNetwork ds b tm)
  with assms(1) have v: "CHIP_DEVICE_CONFIG_ENABLE_THREAD cfg"
    "dataset_parses env ds (mThread (mData (t ! j)))"
    by simp_all
  obtain e n where en: "AddThread_slot env ds (t ! j) = (e, n)"
    by (cases "AddThread_slot env ds (t ! j)")
  with AddThread_slot_parses [OF v(2)]
  have "e = kSuccess" "mNetworkType n = kThread" "mEnabled n = 0"
    "unat (mNetworkIDLen n) = kSizeExtendedPanId"
    by simp_all
  with AddOrUpdateThreadNetwork v(1) assms(2) en show ?thesis
    by (intro exI [of _ n]) (simp add: OnAddThread_unfold)
qed

lemma holds_profile_type: "holds_profile c n \<Longrightarrow> mNetworkType n = added_type c"
  by (cases c) simp_all

lemma added_type_defined: "added_type c \<noteq> kUndefined"
  by (cases c) simp_all

lemma first_undefined_prefix:
  assumes "\<forall>j<kMaxNetworks cfg. (mNetworkType (t ! j) = kUndefined) = (k \<le> j)"
    and "k < kMaxNetworks cfg"
  shows "first_undefined cfg t = Some k"
  unfolding first_undefined_def find_Some_iff
  using assms by (intro exI [of _ k]) auto

lemma first_undefined_exists:
  assumes "k < kMaxNetworks cfg" and "mNetworkType (t ! k) = kUndefined"
  shows "\<exists>j\<le>k. first_undefined cfg t = Some j"
proof (cases "first_undefined cfg t")
  case None
  with assms show ?thesis by (simp add: first_undefined_None)
next
  case (Some j)
  from first_undefined_Some [OF Some] assms(2) have "\<not> k < j" by auto
  with Some show ?thesis by simp
qed

subsection \<open>Malformed Thread input\<close>

text \<open>
  C5, as amended. A build without Thread answers \<^verbatim>\<open>kUnknownError\<close> and leaves the table
  alone. On a build with Thread, when no slot is \<^verbatim>\<open>kUndefined\<close> the answer is
  \<^verbatim>\<open>kBoundsExceeded\<close> and the table is unchanged (the dataset is not looked at); when
  the first \<^verbatim>\<open>kUndefined\<close> slot is \<open>j\<close> and the dataset is malformed (\<^verbatim>\<open>Init\<close> rejects it
  or the extended PAN ID cannot be read), no slot changes its network id, the length of
  its id, its enabled flag or its type and no slot but \<open>j\<close> changes at all, and when it
  is \<^verbatim>\<open>Init\<close> that rejects the dataset the answer is \<^verbatim>\<open>kUnknownError\<close>.
\<close>

theorem thread_add_malformed:
  assumes "table_wf cfg t"
  shows "(\<not> CHIP_DEVICE_CONFIG_ENABLE_THREAD cfg \<longrightarrow>
            OnAddOrUpdateThreadNetworkCommandCallbackInternal cfg env ds breadcrumb timeoutMs t
              = (kUnknownError, t)) \<and>
         (CHIP_DEVICE_CONFIG_ENABLE_THREAD cfg \<longrightarrow>
            (case first_undefined cfg t of
               None \<Rightarrow>
                 OnAddOrUpdateThreadNetworkCommandCallbackInternal cfg env ds breadcrumb timeoutMs t
                   = (kBoundsExceeded, t)
             | Some j \<Rightarrow>
                 (\<not> dataset_parses env ds (mThread (mData (t ! j))) \<longrightarrow>
                    only_payload_of j t
                      (snd (OnAddOrUpdateThreadNetworkCommandCallbackInternal cfg env ds
                              breadcrumb timeoutMs t))) \<and>
                 (fst (dataset_Init env ds (mThread (mData (t ! j)))) \<noteq> CHIP_NO_ERROR \<longrightarrow>
                    fst (OnAddOrUpdateThreadNetworkCommandCallbackInternal cfg env ds
                           breadcrumb timeoutMs t) = kUnknownError)))"
proof (intro conjI impI)
  assume "\<not> CHIP_DEVICE_CONFIG_ENABLE_THREAD cfg"
  then show "OnAddOrUpdateThreadNetworkCommandCallbackInternal cfg env ds breadcrumb timeoutMs t
      = (kUnknownError, t)"
    by (simp add: OnAddOrUpdateThreadNetworkCommandCallbackInternal_def)
next
  assume th: "CHIP_DEVICE_CONFIG_ENABLE_THREAD cfg"
  show "case first_undefined cfg t of
      None \<Rightarrow>
        OnAddOrUpdateThreadNetworkCommandCallbackInternal cfg env ds breadcrumb timeoutMs t
          = (kBoundsExceeded, t)
    | Some j \<Rightarrow>
        (\<not> dataset_parses env ds (mThread (mData (t ! j))) \<longrightarrow>
           only_payload_of j t
             (snd (OnAddOrUpdateThreadNetworkCommandCallbackInternal cfg env ds
                     breadcrumb timeoutMs t))) \<and>
        (fst (dataset_Init env ds (mThread (mData (t ! j)))) \<noteq> CHIP_NO_ERROR \<longrightarrow>
           fst (OnAddOrUpdateThreadNetworkCommandCallbackInternal cfg env ds
                  breadcrumb timeoutMs t) = kUnknownError)"
  proof (cases "first_undefined cfg t")
    case None
    with th show ?thesis by (simp add: OnAddThread_unfold)
  next
    case (Some j)
    obtain e n where en: "AddThread_slot env ds (t ! j) = (e, n)"
      by (cases "AddThread_slot env ds (t ! j)")
    have run: "OnAddOrUpdateThreadNetworkCommandCallbackInternal cfg env ds breadcrumb timeoutMs t
        = (e, t[j := n])"
      using th Some en by (simp add: OnAddThread_unfold)
    have a: "only_payload_of j t (t[j := n])"
      if "\<not> dataset_parses env ds (mThread (mData (t ! j)))"
      using AddThread_slot_malformed [OF that] en by (simp add: only_payload_of_update)
    have b: "e = kUnknownError"
      if "fst (dataset_Init env ds (mThread (mData (t ! j)))) \<noteq> CHIP_NO_ERROR"
      using AddThread_slot_Init_fails [OF that] en by simp
    from a b show ?thesis by (simp add: Some run)
  qed
qed

lemma Init_oversize:
  "fst (dataset_Init example_env dataset_oversize old) = CHIP_ERROR_OTHER 47"
  by (simp add: example_env_def dataset_oversize_def kMaxThreadDatasetLen_def)

theorem thread_add_malformed_witness:
  "table_wf example_config zero_table \<and>
   CHIP_DEVICE_CONFIG_ENABLE_THREAD example_config \<and>
   first_undefined example_config zero_table = Some 0 \<and>
   \<not> dataset_parses example_env dataset_oversize (mThread (mData (zero_table ! 0))) \<and>
   fst (dataset_Init example_env dataset_oversize (mThread (mData (zero_table ! 0))))
     = CHIP_ERROR_OTHER 47 \<and>
   only_payload_of 0 zero_table
     (snd (OnAddOrUpdateThreadNetworkCommandCallbackInternal example_config example_env
             dataset_oversize 0 0 zero_table)) \<and>
   fst (OnAddOrUpdateThreadNetworkCommandCallbackInternal example_config example_env
          dataset_oversize 0 0 zero_table) = kUnknownError"
proof -
  have np: "\<not> dataset_parses example_env dataset_oversize (mThread (mData (zero_table ! 0)))"
    by (simp add: dataset_parses_def Init_oversize)
  from thread_add_malformed [OF table_wf_zero, of example_env dataset_oversize 0 0] np
  show ?thesis
    by (simp add: first_undefined_zero table_wf_zero Init_oversize)
qed

text \<open>
  The claim as written fails on a full table: the dataset that \<^verbatim>\<open>Init\<close> would reject is
  never parsed, and the answer is \<^verbatim>\<open>kBoundsExceeded\<close>.
\<close>

theorem thread_add_malformed_counterexample:
  "fst (dataset_Init example_env dataset_oversize (mThread (mData (full_table ! 0))))
     = CHIP_ERROR_OTHER 47 \<and>
   OnAddOrUpdateThreadNetworkCommandCallbackInternal example_config example_env
     dataset_oversize 0 0 full_table = (kBoundsExceeded, full_table)"
  by (simp add: Init_oversize OnAddThread_unfold first_undefined_full)

text \<open>
  When \<^verbatim>\<open>Init\<close> accepts the dataset and \<^verbatim>\<open>GetExtendedPanId\<close> fails, \<^verbatim>\<open>SuccessOrExit\<close>
  leaves with \<^verbatim>\<open>err\<close> still holding its initial \<^verbatim>\<open>kBoundsExceeded\<close>, although a slot
  is free.
\<close>

lemma thread_add_panid_failure_status:
  "fst (dataset_Init example_env dataset_short (mThread (mData (zero_table ! 0))))
     = CHIP_NO_ERROR \<and>
   fst (dataset_GetExtendedPanId example_env
          (snd (dataset_Init example_env dataset_short (mThread (mData (zero_table ! 0))))))
     = CHIP_ERROR_OTHER 16 \<and>
   fst (OnAddOrUpdateThreadNetworkCommandCallbackInternal example_config example_env
          dataset_short 0 0 zero_table) = kBoundsExceeded"
  by (simp add: OnAddThread_unfold first_undefined_zero AddThread_slot_def example_env_def
      dataset_short_def kMaxThreadDatasetLen_def Let_def zero_table_nth)

subsection \<open>Capacity\<close>

lemma run_adds_from:
  assumes "length t = kMaxNetworks cfg"
    and "\<forall>j<kMaxNetworks cfg. (mNetworkType (t ! j) = kUndefined) = (k \<le> j)"
    and "\<forall>c\<in>set cmds. valid_add cfg env c"
    and "k + length cmds \<le> kMaxNetworks cfg"
  shows "fst (run_adds cfg env cmds t) = replicate (length cmds) kSuccess \<and>
         length (snd (run_adds cfg env cmds t)) = kMaxNetworks cfg \<and>
         (\<forall>j<kMaxNetworks cfg.
            if j < k \<or> k + length cmds \<le> j
            then snd (run_adds cfg env cmds t) ! j = t ! j
            else holds_profile (cmds ! (j - k)) (snd (run_adds cfg env cmds t) ! j))"
  using assms
proof (induction cmds arbitrary: k t)
  case Nil
  then show ?case by auto
next
  case (Cons c cs)
  let ?N = "kMaxNetworks cfg"
  from Cons.prems(4) have kN: "k < ?N" by simp
  from first_undefined_prefix [OF Cons.prems(2) kN]
  have fu: "first_undefined cfg t = Some k" .
  from Cons.prems(3) have vc: "valid_add cfg env c" by simp
  from invoke_add_valid [OF vc fu] obtain n where
    inv: "invoke_add cfg env c t = (kSuccess, t[k := n])" and hp: "holds_profile c n"
    by blast
  let ?t1 = "t[k := n]"
  have ty: "mNetworkType n \<noteq> kUndefined"
    using holds_profile_type [OF hp] added_type_defined by simp
  have len1: "length ?t1 = ?N" using Cons.prems(1) by simp
  have occ1: "\<forall>j<?N. (mNetworkType (?t1 ! j) = kUndefined) = (Suc k \<le> j)"
  proof (intro allI impI)
    fix j assume j: "j < ?N"
    show "(mNetworkType (?t1 ! j) = kUndefined) = (Suc k \<le> j)"
    proof (cases "j = k")
      case True
      with ty kN Cons.prems(1) show ?thesis by simp
    next
      case False
      with Cons.prems(2) j show ?thesis by auto
    qed
  qed
  have v1: "\<forall>c\<in>set cs. valid_add cfg env c" using Cons.prems(3) by simp
  have b1: "Suc k + length cs \<le> ?N" using Cons.prems(4) by simp
  note IH = Cons.IH [OF len1 occ1 v1 b1]
  have run: "run_adds cfg env (c # cs) t =
      (kSuccess # fst (run_adds cfg env cs ?t1), snd (run_adds cfg env cs ?t1))"
    by (simp add: inv case_prod_beta)
  have slots: "if j < k \<or> k + length (c # cs) \<le> j
      then snd (run_adds cfg env cs ?t1) ! j = t ! j
      else holds_profile ((c # cs) ! (j - k)) (snd (run_adds cfg env cs ?t1) ! j)"
    if j: "j < ?N" for j
  proof -
    from IH j have ih: "if j < Suc k \<or> Suc k + length cs \<le> j
        then snd (run_adds cfg env cs ?t1) ! j = ?t1 ! j
        else holds_profile (cs ! (j - Suc k)) (snd (run_adds cfg env cs ?t1) ! j)"
      by blast
    consider "j < k" | "j = k" | "k < j" "j < Suc k + length cs" | "Suc k + length cs \<le> j"
      by linarith
    then show ?thesis
    proof cases
      case 1
      with ih show ?thesis by simp
    next
      case 2
      with ih hp kN Cons.prems(1) show ?thesis by simp
    next
      case 3
      then have "(c # cs) ! (j - k) = cs ! (j - Suc k)"
        by (simp add: nth_Cons')
      with ih 3 show ?thesis by simp
    next
      case 4
      with ih show ?thesis by simp
    qed
  qed
  from IH run slots show ?case by simp
qed

lemma run_adds_fills:
  assumes "length t = kMaxNetworks cfg"
    and "\<forall>j<kMaxNetworks cfg. mNetworkType (t ! j) = kUndefined"
    and "\<forall>c\<in>set cmds. valid_add cfg env c"
    and "length cmds = kMaxNetworks cfg"
  shows "table_full cfg (snd (run_adds cfg env cmds t))"
proof -
  from run_adds_from [of t cfg 0 cmds env] assms
  have "\<forall>j<kMaxNetworks cfg.
      holds_profile (cmds ! j) (snd (run_adds cfg env cmds t) ! j)"
    by simp
  then have "\<forall>j<kMaxNetworks cfg. mNetworkType (snd (run_adds cfg env cmds t) ! j) \<noteq> kUndefined"
    using holds_profile_type added_type_defined by metis
  then show ?thesis
    by (simp add: table_full_def first_undefined_None)
qed

text \<open>
  C3. Starting from a table whose slots are all \<^verbatim>\<open>kUndefined\<close>, at most \<^verbatim>\<open>kMaxNetworks\<close>
  valid adds all answer \<^verbatim>\<open>kSuccess\<close>; the profile of the \<open>j\<close>-th of them sits in slot
  \<open>j\<close>, so each occupies a slot of its own, and the slots beyond are untouched. After
  \<^verbatim>\<open>kMaxNetworks\<close> of them no slot is \<^verbatim>\<open>kUndefined\<close>, and on any table without a
  \<^verbatim>\<open>kUndefined\<close> slot an add the build supports answers \<^verbatim>\<open>kBoundsExceeded\<close> and leaves
  the table as it was.
\<close>

theorem capacity_invariant:
  assumes "table_wf cfg t0"
    and "\<forall>j<kMaxNetworks cfg. mNetworkType (t0 ! j) = kUndefined"
    and "\<forall>c\<in>set cmds. valid_add cfg env c"
    and "length cmds \<le> kMaxNetworks cfg"
  shows "fst (run_adds cfg env cmds t0) = replicate (length cmds) kSuccess \<and>
         (\<forall>j<kMaxNetworks cfg.
            if j < length cmds
            then holds_profile (cmds ! j) (snd (run_adds cfg env cmds t0) ! j)
            else snd (run_adds cfg env cmds t0) ! j = t0 ! j) \<and>
         (length cmds = kMaxNetworks cfg \<longrightarrow> table_full cfg (snd (run_adds cfg env cmds t0))) \<and>
         (\<forall>t c. table_full cfg t \<and> supported cfg c \<longrightarrow>
            invoke_add cfg env c t = (kBoundsExceeded, t))"
proof -
  from assms(1) have len: "length t0 = kMaxNetworks cfg" by (simp add: table_wf_def)
  from assms(2) have occ: "\<forall>j<kMaxNetworks cfg. (mNetworkType (t0 ! j) = kUndefined) = (0 \<le> j)"
    by simp
  from assms(4) have b: "0 + length cmds \<le> kMaxNetworks cfg" by simp
  note r = run_adds_from [OF len occ assms(3) b]
  have a1: "fst (run_adds cfg env cmds t0) = replicate (length cmds) kSuccess"
    using r by simp
  have a2: "\<forall>j<kMaxNetworks cfg.
            if j < length cmds
            then holds_profile (cmds ! j) (snd (run_adds cfg env cmds t0) ! j)
            else snd (run_adds cfg env cmds t0) ! j = t0 ! j"
  proof (intro allI impI)
    fix j assume "j < kMaxNetworks cfg"
    with r have "if j < 0 \<or> 0 + length cmds \<le> j
            then snd (run_adds cfg env cmds t0) ! j = t0 ! j
            else holds_profile (cmds ! (j - 0)) (snd (run_adds cfg env cmds t0) ! j)"
      by blast
    then show "if j < length cmds
            then holds_profile (cmds ! j) (snd (run_adds cfg env cmds t0) ! j)
            else snd (run_adds cfg env cmds t0) ! j = t0 ! j"
      by (cases "j < length cmds") simp_all
  qed
  have a3: "length cmds = kMaxNetworks cfg \<longrightarrow> table_full cfg (snd (run_adds cfg env cmds t0))"
    using run_adds_fills [OF len assms(2,3)] by simp
  have a4: "\<forall>t c. table_full cfg t \<and> supported cfg c \<longrightarrow>
            invoke_add cfg env c t = (kBoundsExceeded, t)"
    using invoke_add_full by (simp add: table_full_def)
  from a1 a2 a3 a4 show ?thesis by blast
qed

lemma dataset_example_parses: "dataset_parses example_env dataset_example old"
  by (simp add: dataset_parses_def example_env_def dataset_example_def kMaxThreadDatasetLen_def)

lemma four_adds_valid: "\<forall>c\<in>set four_adds. valid_add example_config example_env c"
  by (auto simp add: four_adds_def two_adds_def ssid_home_def credentials_secret123_def
      kMaxWiFiSSIDLen_def kMaxWiFiCredentialsLen_def dataset_example_parses)

lemma zero_table_undefined:
  "\<forall>j<kMaxNetworks example_config. mNetworkType (zero_table ! j) = kUndefined"
  by (simp add: zero_table_nth zero_NetworkInfo_def)

lemma length_four_adds: "length four_adds = 4"
  by (simp add: four_adds_def two_adds_def)

theorem capacity_invariant_witness:
  "table_wf example_config zero_table \<and>
   list_all (\<lambda>n. mNetworkType n = kUndefined) zero_table \<and>
   list_all (valid_add example_config example_env) four_adds \<and>
   length four_adds \<le> kMaxNetworks example_config \<and>
   fst (run_adds example_config example_env four_adds zero_table)
     = [kSuccess, kSuccess, kSuccess, kSuccess] \<and>
   holds_profile (AddOrUpdateWiFiNetwork ssid_home credentials_secret123 0 0)
     (snd (run_adds example_config example_env four_adds zero_table) ! 0) \<and>
   holds_profile (AddOrUpdateThreadNetwork dataset_example 0 0)
     (snd (run_adds example_config example_env four_adds zero_table) ! 3) \<and>
   table_full example_config (snd (run_adds example_config example_env four_adds zero_table)) \<and>
   invoke_add example_config example_env
     (AddOrUpdateWiFiNetwork ssid_home credentials_secret123 0 0)
     (snd (run_adds example_config example_env four_adds zero_table))
     = (kBoundsExceeded, snd (run_adds example_config example_env four_adds zero_table))"
proof -
  let ?t = "snd (run_adds example_config example_env four_adds zero_table)"
  have le: "length four_adds \<le> kMaxNetworks example_config"
    by (simp add: length_four_adds)
  note c = capacity_invariant [OF table_wf_zero zero_table_undefined four_adds_valid le]
  have h2: "list_all (\<lambda>n. mNetworkType n = kUndefined) zero_table"
    by (simp add: zero_table_def zero_NetworkInfo_def list_all_iff)
  have h3: "list_all (valid_add example_config example_env) four_adds"
    using four_adds_valid by (simp add: list_all_iff)
  have s: "fst (run_adds example_config example_env four_adds zero_table)
      = [kSuccess, kSuccess, kSuccess, kSuccess]"
    using c by (simp add: length_four_adds numeral_eq_Suc)
  from c have slots: "\<forall>j<kMaxNetworks example_config.
      if j < length four_adds then holds_profile (four_adds ! j) (?t ! j)
      else ?t ! j = zero_table ! j"
    by blast
  from slots have p0: "holds_profile (four_adds ! 0) (?t ! 0)"
    by (simp add: length_four_adds)
  from slots have p3: "holds_profile (four_adds ! 3) (?t ! 3)"
    by (simp add: length_four_adds)
  have n0: "four_adds ! 0 = AddOrUpdateWiFiNetwork ssid_home credentials_secret123 0 0"
    by (simp add: four_adds_def two_adds_def)
  have n3: "four_adds ! 3 = AddOrUpdateThreadNetwork dataset_example 0 0"
    by (simp add: four_adds_def two_adds_def)
  from c have full: "table_full example_config ?t"
    by (simp add: length_four_adds)
  from c have inv: "invoke_add example_config example_env c t = (kBoundsExceeded, t)"
    if "table_full example_config t" and "supported example_config c" for t c
    using that by blast
  have more: "invoke_add example_config example_env
      (AddOrUpdateWiFiNetwork ssid_home credentials_secret123 0 0) ?t = (kBoundsExceeded, ?t)"
    by (rule inv [OF full]) simp
  from h2 h3 le s p0 p3 n0 n3 full more table_wf_zero show ?thesis by simp
qed

subsection \<open>Adding the same Wi-Fi network twice\<close>

lemma AddWiFi_slot_len:
  assumes "length ssid \<le> 32" and "length creds \<le> 64"
  shows "mNetworkIDLen (snd (AddWiFi_slot ssid creds n)) = of_nat (length ssid)"
  using assms
  by (simp add: AddWiFi_slot_def Let_def size_defs wifi_upd_def)

lemma OnAddWiFi_valid:
  assumes "CHIP_DEVICE_LAYER_TARGET cfg"
    and "length ssid \<le> 32" and "length creds \<le> 64"
    and "first_undefined cfg t = Some j"
  shows "OnAddOrUpdateWiFiNetworkCommandCallbackInternal cfg ssid creds breadcrumb timeoutMs t =
      (kSuccess, t[j := snd (AddWiFi_slot ssid creds (t ! j))])"
  using assms AddWiFi_slot_valid(1) [OF assms(2,3), of "t ! j"]
  by (simp add: OnAddWiFi_unfold case_prod_beta)

text \<open>
  C9. On a build with Wi-Fi, two consecutive adds of the same SSID (at most 32 bytes) and
  credentials (at most 64 bytes) into a table with at least two \<^verbatim>\<open>kUndefined\<close> slots
  both answer \<^verbatim>\<open>kSuccess\<close>. The first writes a slot \<open>i\<close> and the second a later slot
  \<open>j\<close>, both \<^verbatim>\<open>kUndefined\<close> before; the second leaves slot \<open>i\<close> as the first wrote it,
  and the two profiles hold the same network id, the SSID, with the same length.
\<close>

theorem wifi_add_twice:
  assumes "CHIP_DEVICE_LAYER_TARGET cfg"
    and "table_wf cfg t"
    and "length ssid \<le> kMaxWiFiSSIDLen"
    and "length credentials \<le> kMaxWiFiCredentialsLen"
    and "a < b" and "b < kMaxNetworks cfg"
    and "mNetworkType (t ! a) = kUndefined" and "mNetworkType (t ! b) = kUndefined"
  shows "\<exists>i j n1 n2.
      i < j \<and> j < kMaxNetworks cfg \<and>
      mNetworkType (t ! i) = kUndefined \<and> mNetworkType (t ! j) = kUndefined \<and>
      OnAddOrUpdateWiFiNetworkCommandCallbackInternal cfg ssid credentials bc1 tm1 t
        = (kSuccess, t[i := n1]) \<and>
      OnAddOrUpdateWiFiNetworkCommandCallbackInternal cfg ssid credentials bc2 tm2 (t[i := n1])
        = (kSuccess, t[i := n1, j := n2]) \<and>
      t[i := n1, j := n2] ! i = n1 \<and> t[i := n1, j := n2] ! j = n2 \<and>
      mNetworkType n1 = kWiFi \<and> mNetworkType n2 = kWiFi \<and>
      network_id n1 = ssid \<and> network_id n2 = ssid \<and>
      mNetworkIDLen n1 = mNetworkIDLen n2"
proof -
  let ?N = "kMaxNetworks cfg"
  from assms(2) have len: "length t = ?N" by (simp add: table_wf_def)
  from assms(3,4) have v: "length ssid \<le> 32" "length credentials \<le> 64"
    by (simp_all add: kMaxWiFiSSIDLen_def kMaxWiFiCredentialsLen_def)
  from assms(5,6) have aN: "a < ?N" by simp
  from first_undefined_exists [OF aN assms(7)] obtain i where
    ia: "i \<le> a" and fu: "first_undefined cfg t = Some i" by blast
  define n1 where "n1 = snd (AddWiFi_slot ssid credentials (t ! i))"
  let ?t1 = "t[i := n1]"
  have run1: "OnAddOrUpdateWiFiNetworkCommandCallbackInternal cfg ssid credentials bc1 tm1 t
      = (kSuccess, ?t1)"
    unfolding n1_def by (rule OnAddWiFi_valid [OF assms(1) v fu])
  have iN: "i < length t" using ia aN len by simp
  have ty1: "mNetworkType n1 = kWiFi" and id1: "network_id n1 = ssid"
    unfolding n1_def using AddWiFi_slot_valid [OF v] by simp_all
  have ib: "i \<noteq> b" using ia assms(5) by simp
  then have "mNetworkType (?t1 ! b) = kUndefined" using assms(8) by simp
  from first_undefined_exists [OF assms(6) this] obtain j where
    jb: "j \<le> b" and fu1: "first_undefined cfg ?t1 = Some j" by blast
  from first_undefined_Some [OF fu1]
  have jN: "j < ?N" and tyj1: "mNetworkType (?t1 ! j) = kUndefined" by simp_all
  have ji: "j \<noteq> i"
  proof
    assume "j = i"
    with tyj1 iN ty1 show False by simp
  qed
  then have tyj: "mNetworkType (t ! j) = kUndefined" using tyj1 by simp
  have ij: "i < j"
  proof (rule ccontr)
    assume "\<not> i < j"
    with ji have "j < i" by simp
    with first_undefined_Some [OF fu] tyj show False by blast
  qed
  define n2 where "n2 = snd (AddWiFi_slot ssid credentials (?t1 ! j))"
  have run2: "OnAddOrUpdateWiFiNetworkCommandCallbackInternal cfg ssid credentials bc2 tm2 ?t1
      = (kSuccess, ?t1[j := n2])"
    unfolding n2_def by (rule OnAddWiFi_valid [OF assms(1) v fu1])
  have ty2: "mNetworkType n2 = kWiFi" and id2: "network_id n2 = ssid"
    unfolding n2_def using AddWiFi_slot_valid [OF v] by simp_all
  have leq: "mNetworkIDLen n1 = mNetworkIDLen n2"
    unfolding n1_def n2_def by (simp add: AddWiFi_slot_len [OF v])
  have tyi: "mNetworkType (t ! i) = kUndefined"
    using first_undefined_Some [OF fu] by simp
  have keep: "?t1[j := n2] ! i = n1" "?t1[j := n2] ! j = n2"
    using ji iN jN len by simp_all
  from ij jN tyi tyj run1 run2 keep ty1 ty2 id1 id2 leq show ?thesis by blast
qed

theorem wifi_add_twice_witness:
  "CHIP_DEVICE_LAYER_TARGET example_config \<and> table_wf example_config zero_table \<and>
   length ssid_home \<le> kMaxWiFiSSIDLen \<and>
   length credentials_secret123 \<le> kMaxWiFiCredentialsLen \<and>
   (0::nat) < 1 \<and> 1 < kMaxNetworks example_config \<and>
   mNetworkType (zero_table ! 0) = kUndefined \<and> mNetworkType (zero_table ! 1) = kUndefined \<and>
   (\<exists>i j n1 n2.
      i < j \<and> j < kMaxNetworks example_config \<and>
      mNetworkType (zero_table ! i) = kUndefined \<and> mNetworkType (zero_table ! j) = kUndefined \<and>
      OnAddOrUpdateWiFiNetworkCommandCallbackInternal example_config ssid_home
          credentials_secret123 0 0 zero_table
        = (kSuccess, zero_table[i := n1]) \<and>
      OnAddOrUpdateWiFiNetworkCommandCallbackInternal example_config ssid_home
          credentials_secret123 0 0 (zero_table[i := n1])
        = (kSuccess, zero_table[i := n1, j := n2]) \<and>
      zero_table[i := n1, j := n2] ! i = n1 \<and> zero_table[i := n1, j := n2] ! j = n2 \<and>
      mNetworkType n1 = kWiFi \<and> mNetworkType n2 = kWiFi \<and>
      network_id n1 = ssid_home \<and> network_id n2 = ssid_home \<and>
      mNetworkIDLen n1 = mNetworkIDLen n2)"
proof -
  have h3: "length ssid_home \<le> kMaxWiFiSSIDLen"
    by (simp add: ssid_home_def kMaxWiFiSSIDLen_def)
  have h4: "length credentials_secret123 \<le> kMaxWiFiCredentialsLen"
    by (simp add: credentials_secret123_def kMaxWiFiCredentialsLen_def)
  have h5: "(0::nat) < 1" by simp
  have h6: "1 < kMaxNetworks example_config" by simp
  have h7: "mNetworkType (zero_table ! 0) = kUndefined"
    by (simp add: zero_table_nth zero_NetworkInfo_def)
  have h8: "mNetworkType (zero_table ! 1) = kUndefined"
    by (simp add: zero_table_nth zero_NetworkInfo_def)
  note w = wifi_add_twice [OF config_example(1) table_wf_zero h3 h4 h5 h6 h7 h8, of 0 0 0 0]
  from h3 h4 h7 h8 table_wf_zero w show ?thesis by simp
qed

subsection \<open>DoConnectNetwork\<close>

lemma DoConnectNetwork_frame:
  "snd (DoConnectNetwork cfg env n tr) =
     (if fst (DoConnectNetwork cfg env n tr) = CHIP_NO_ERROR then n\<lparr>mEnabled := 1\<rparr> else n,
      snd (snd (DoConnectNetwork cfg env n tr)))"
  by (cases "mNetworkType n")
    (simp_all add: DoConnectNetwork_def issue_def Let_def)

lemma DoConnectNetwork_trace:
  "\<exists>cs. snd (snd (DoConnectNetwork cfg env n tr)) = tr @ cs \<and> (\<forall>c\<in>set cs. \<not> is_notifier c)"
  by (cases "mNetworkType n")
    (simp_all add: DoConnectNetwork_def issue_def Let_def is_notifier_def)

lemma DoConnectNetwork_Thread:
  assumes "mNetworkType network = kThread" and "CHIP_DEVICE_CONFIG_ENABLE_THREAD cfg"
  shows "DoConnectNetwork cfg env network tr =
    (if \<not> CHIP_DEVICE_LAYER_TARGET_LINUX cfg \<and>
        platform_result env tr thread_disable \<noteq> CHIP_NO_ERROR
     then (platform_result env tr thread_disable, network, tr @ [thread_disable])
     else if platform_result env (tr @ thread_prelude cfg) (thread_apply env network)
               \<noteq> CHIP_NO_ERROR
     then (platform_result env (tr @ thread_prelude cfg) (thread_apply env network), network,
           tr @ thread_prelude cfg @ [thread_apply env network])
     else if platform_result env (tr @ thread_prelude cfg @ [thread_apply env network])
               thread_enable \<noteq> CHIP_NO_ERROR
     then (platform_result env (tr @ thread_prelude cfg @ [thread_apply env network])
             thread_enable, network,
           tr @ thread_prelude cfg @ [thread_apply env network, thread_enable])
     else (CHIP_NO_ERROR, network\<lparr>mEnabled := 1\<rparr>,
           tr @ thread_prelude cfg @ [thread_apply env network, thread_enable]))"
  using assms
  by (simp add: DoConnectNetwork_def issue_def Let_def thread_disable_def thread_apply_def
      thread_enable_def thread_prelude_def)

lemma DoConnectNetwork_WiFi:
  assumes "mNetworkType network = kWiFi" and "CHIP_DEVICE_LAYER_TARGET cfg"
  shows "DoConnectNetwork cfg env network tr =
    (if platform_result env tr (wifi_call network) \<noteq> CHIP_NO_ERROR
     then (platform_result env tr (wifi_call network), network, tr @ [wifi_call network])
     else (CHIP_NO_ERROR, network\<lparr>mEnabled := 1\<rparr>, tr @ [wifi_call network]))"
  using assms
  by (simp add: DoConnectNetwork_def issue_def Let_def wifi_call_def)

lemma DoConnectNetwork_Ethernet:
  assumes "mNetworkType network = kEthernet"
  shows "DoConnectNetwork cfg env network tr = (CHIP_ERROR_NOT_IMPLEMENTED, network, tr)"
  using assms by (simp add: DoConnectNetwork_def)

lemma OnConnect_unfold:
  "OnConnectNetworkCommandCallbackInternal cfg env nid breadcrumb timeoutMs t tr =
    (case first_match cfg t nid of
       None \<Rightarrow> (kNetworkIDNotFound, t, tr)
     | Some j \<Rightarrow>
         if fst (DoConnectNetwork cfg env (t ! j) tr) = CHIP_NO_ERROR
         then (kSuccess, t[j := (t ! j)\<lparr>mEnabled := 1\<rparr>],
               snd (snd (DoConnectNetwork cfg env (t ! j) tr)) @ [ConnectNetworkForOperational nid])
         else (kUnknownError, t, snd (snd (DoConnectNetwork cfg env (t ! j) tr))))"
proof (cases "first_match cfg t nid")
  case None
  then show ?thesis
    by (simp add: OnConnectNetworkCommandCallbackInternal_def Connect_loop_find first_match_def)
next
  case (Some j)
  obtain e n tr' where d: "DoConnectNetwork cfg env (t ! j) tr = (e, n, tr')"
    by (cases "DoConnectNetwork cfg env (t ! j) tr") auto
  from DoConnectNetwork_frame [of cfg env "t ! j" tr] d
  have n: "n = (if e = CHIP_NO_ERROR then (t ! j)\<lparr>mEnabled := 1\<rparr> else t ! j)" by simp
  from Some d n show ?thesis
    by (simp add: OnConnectNetworkCommandCallbackInternal_def Connect_loop_find first_match_def)
qed

lemma first_match_Some:
  "first_match cfg t nid = Some j \<longleftrightarrow>
     j < kMaxNetworks cfg \<and> id_matches (t ! j) nid \<and> (\<forall>k<j. \<not> id_matches (t ! k) nid)"
  by (auto simp: first_match_def find_Some_iff)

lemma first_match_None:
  "first_match cfg t nid = None \<longleftrightarrow> (\<forall>k<kMaxNetworks cfg. \<not> id_matches (t ! k) nid)"
  by (auto simp: first_match_def find_None_iff)

lemma id_matches_iff:
  assumes "slot_wf n"
    and "mNetworkType n = kUndefined \<or> unat (mNetworkIDLen n) \<le> sizeof_mNetworkID"
  shows "id_matches n nid \<longleftrightarrow> mNetworkType n \<noteq> kUndefined \<and> network_id n = nid"
proof (cases "mNetworkType n = kUndefined")
  case True
  then show ?thesis by (simp add: id_matches_def)
next
  case False
  with assms have le: "unat (mNetworkIDLen n) \<le> length (mNetworkID n)"
    by (simp add: slot_wf_def)
  show ?thesis
  proof
    assume "id_matches n nid"
    then have "unat (mNetworkIDLen n) = length nid"
      and "take (length nid) (mNetworkID n) = nid"
      by (simp_all add: id_matches_def memcmp_eq_def)
    with False show "mNetworkType n \<noteq> kUndefined \<and> network_id n = nid"
      by (simp add: network_id_def)
  next
    assume r: "mNetworkType n \<noteq> kUndefined \<and> network_id n = nid"
    then have "length nid = unat (mNetworkIDLen n)"
      using le by (auto simp add: network_id_def)
    with r show "id_matches n nid"
      by (auto simp add: id_matches_def memcmp_eq_def network_id_def)
  qed
qed

lemma id_matches_table:
  assumes "table_wf cfg t" and "ids_in_range t" and "k < kMaxNetworks cfg"
  shows "id_matches (t ! k) nid \<longleftrightarrow> mNetworkType (t ! k) \<noteq> kUndefined \<and> network_id (t ! k) = nid"
proof -
  from assms(1,3) have "k < length t" by (simp add: table_wf_def)
  with assms(1,2) have "slot_wf (t ! k)"
    and "mNetworkType (t ! k) = kUndefined \<or> unat (mNetworkIDLen (t ! k)) \<le> sizeof_mNetworkID"
    by (simp_all add: table_wf_def ids_in_range_def list_all_length)
  then show ?thesis by (rule id_matches_iff)
qed

subsection \<open>The order of the calls of a Thread connect\<close>

lemma new_calls_append [simp]: "new_calls tr (tr @ cs) = cs"
  by (simp add: new_calls_def)

lemma thread_calls_distinct [simp]:
  "thread_enable \<noteq> thread_disable" "thread_enable \<noteq> thread_apply env n"
  "thread_enable \<notin> set (thread_prelude cfg)"
  by (simp_all add: thread_enable_def thread_disable_def thread_apply_def thread_prelude_def)

lemma thread_connect_prefix:
  assumes "mNetworkType network = kThread" and "CHIP_DEVICE_CONFIG_ENABLE_THREAD cfg"
  shows "(\<exists>k. snd (snd (DoConnectNetwork cfg env network tr)) =
            tr @ take k (thread_prelude cfg @ [thread_apply env network, thread_enable])) \<and>
         (platform_result env (tr @ thread_prelude cfg) (thread_apply env network) \<noteq> CHIP_NO_ERROR
            \<longrightarrow> thread_enable \<notin> set (new_calls tr (snd (snd (DoConnectNetwork cfg env network tr)))) \<and>
                fst (DoConnectNetwork cfg env network tr) \<noteq> CHIP_NO_ERROR \<and>
                fst (snd (DoConnectNetwork cfg env network tr)) = network) \<and>
         (fst (DoConnectNetwork cfg env network tr) = CHIP_NO_ERROR
            \<longrightarrow> snd (snd (DoConnectNetwork cfg env network tr)) =
                  tr @ thread_prelude cfg @ [thread_apply env network, thread_enable] \<and>
                fst (snd (DoConnectNetwork cfg env network tr)) = network\<lparr>mEnabled := 1\<rparr>)"
proof -
  let ?D = "DoConnectNetwork cfg env network tr"
  let ?seq = "thread_prelude cfg @ [thread_apply env network, thread_enable]"
  note D = DoConnectNetwork_Thread [OF assms, of env tr]
  consider
    (off) "\<not> CHIP_DEVICE_LAYER_TARGET_LINUX cfg"
      "platform_result env tr thread_disable \<noteq> CHIP_NO_ERROR"
  | (prov) "CHIP_DEVICE_LAYER_TARGET_LINUX cfg \<or>
      platform_result env tr thread_disable = CHIP_NO_ERROR"
      "platform_result env (tr @ thread_prelude cfg) (thread_apply env network) \<noteq> CHIP_NO_ERROR"
  | (on) "CHIP_DEVICE_LAYER_TARGET_LINUX cfg \<or>
      platform_result env tr thread_disable = CHIP_NO_ERROR"
      "platform_result env (tr @ thread_prelude cfg) (thread_apply env network) = CHIP_NO_ERROR"
      "platform_result env (tr @ thread_prelude cfg @ [thread_apply env network]) thread_enable
         \<noteq> CHIP_NO_ERROR"
  | (fin) "CHIP_DEVICE_LAYER_TARGET_LINUX cfg \<or>
      platform_result env tr thread_disable = CHIP_NO_ERROR"
      "platform_result env (tr @ thread_prelude cfg) (thread_apply env network) = CHIP_NO_ERROR"
      "platform_result env (tr @ thread_prelude cfg @ [thread_apply env network]) thread_enable
         = CHIP_NO_ERROR"
    by blast
  then show ?thesis
  proof cases
    case off
    then have r: "?D = (platform_result env tr thread_disable, network, tr @ [thread_disable])"
      using D by simp
    from off have "tr @ [thread_disable] = tr @ take 1 ?seq"
      by (simp add: thread_prelude_def)
    then have "\<exists>k. tr @ [thread_disable] = tr @ take k ?seq" ..
    with r off show ?thesis by simp
  next
    case prov
    then have r: "?D = (platform_result env (tr @ thread_prelude cfg) (thread_apply env network),
        network, tr @ thread_prelude cfg @ [thread_apply env network])"
      using D by auto
    have "tr @ thread_prelude cfg @ [thread_apply env network] =
        tr @ take (Suc (length (thread_prelude cfg))) ?seq"
      by simp
    then have "\<exists>k. tr @ thread_prelude cfg @ [thread_apply env network] = tr @ take k ?seq" ..
    with r prov show ?thesis by simp
  next
    case on
    then have r: "?D = (platform_result env (tr @ thread_prelude cfg @ [thread_apply env network])
          thread_enable, network,
        tr @ thread_prelude cfg @ [thread_apply env network, thread_enable])"
      using D by auto
    have "tr @ ?seq = tr @ take (length ?seq) ?seq" by simp
    then have "\<exists>k. tr @ ?seq = tr @ take k ?seq" ..
    with r on show ?thesis by simp
  next
    case fin
    then have r: "?D = (CHIP_NO_ERROR, network\<lparr>mEnabled := 1\<rparr>,
        tr @ thread_prelude cfg @ [thread_apply env network, thread_enable])"
      using D by auto
    have "tr @ ?seq = tr @ take (length ?seq) ?seq" by simp
    then have "\<exists>k. tr @ ?seq = tr @ take k ?seq" ..
    with r fin show ?thesis by simp
  qed
qed

text \<open>
  C4, as amended. On a build with Thread, a connect of a Thread profile issues disable
  (left out on a Linux target), apply the stored dataset, enable, in that order, and stops
  at the first call that fails: it returns that call's error, leaves the profile as it
  was, and issues no later call. When all the calls succeed it returns
  \<^verbatim>\<open>CHIP_NO_ERROR\<close> with the profile enabled. So the calls issued are an initial part
  of the sequence, and when the apply call fails the enable call is not issued.
\<close>

theorem thread_connect_order:
  assumes "mNetworkType network = kThread" and "CHIP_DEVICE_CONFIG_ENABLE_THREAD cfg"
  shows "DoConnectNetwork cfg env network tr =
          (if \<not> CHIP_DEVICE_LAYER_TARGET_LINUX cfg \<and>
              platform_result env tr thread_disable \<noteq> CHIP_NO_ERROR
           then (platform_result env tr thread_disable, network, tr @ [thread_disable])
           else if platform_result env (tr @ thread_prelude cfg) (thread_apply env network)
                     \<noteq> CHIP_NO_ERROR
           then (platform_result env (tr @ thread_prelude cfg) (thread_apply env network),
                 network, tr @ thread_prelude cfg @ [thread_apply env network])
           else if platform_result env (tr @ thread_prelude cfg @ [thread_apply env network])
                     thread_enable \<noteq> CHIP_NO_ERROR
           then (platform_result env (tr @ thread_prelude cfg @ [thread_apply env network])
                   thread_enable, network,
                 tr @ thread_prelude cfg @ [thread_apply env network, thread_enable])
           else (CHIP_NO_ERROR, network\<lparr>mEnabled := 1\<rparr>,
                 tr @ thread_prelude cfg @ [thread_apply env network, thread_enable])) \<and>
         (\<exists>k. snd (snd (DoConnectNetwork cfg env network tr)) =
            tr @ take k (thread_prelude cfg @ [thread_apply env network, thread_enable])) \<and>
         (platform_result env (tr @ thread_prelude cfg) (thread_apply env network) \<noteq> CHIP_NO_ERROR
            \<longrightarrow> thread_enable \<notin> set (new_calls tr (snd (snd (DoConnectNetwork cfg env network tr)))) \<and>
                fst (DoConnectNetwork cfg env network tr) \<noteq> CHIP_NO_ERROR \<and>
                fst (snd (DoConnectNetwork cfg env network tr)) = network)"
proof (intro conjI)
  show "DoConnectNetwork cfg env network tr =
          (if \<not> CHIP_DEVICE_LAYER_TARGET_LINUX cfg \<and>
              platform_result env tr thread_disable \<noteq> CHIP_NO_ERROR
           then (platform_result env tr thread_disable, network, tr @ [thread_disable])
           else if platform_result env (tr @ thread_prelude cfg) (thread_apply env network)
                     \<noteq> CHIP_NO_ERROR
           then (platform_result env (tr @ thread_prelude cfg) (thread_apply env network),
                 network, tr @ thread_prelude cfg @ [thread_apply env network])
           else if platform_result env (tr @ thread_prelude cfg @ [thread_apply env network])
                     thread_enable \<noteq> CHIP_NO_ERROR
           then (platform_result env (tr @ thread_prelude cfg @ [thread_apply env network])
                   thread_enable, network,
                 tr @ thread_prelude cfg @ [thread_apply env network, thread_enable])
           else (CHIP_NO_ERROR, network\<lparr>mEnabled := 1\<rparr>,
                 tr @ thread_prelude cfg @ [thread_apply env network, thread_enable]))"
    by (rule DoConnectNetwork_Thread [OF assms])
next
  show "\<exists>k. snd (snd (DoConnectNetwork cfg env network tr)) =
      tr @ take k (thread_prelude cfg @ [thread_apply env network, thread_enable])"
    using thread_connect_prefix [OF assms] by blast
next
  show "platform_result env (tr @ thread_prelude cfg) (thread_apply env network) \<noteq> CHIP_NO_ERROR
      \<longrightarrow> thread_enable \<notin> set (new_calls tr (snd (snd (DoConnectNetwork cfg env network tr)))) \<and>
          fst (DoConnectNetwork cfg env network tr) \<noteq> CHIP_NO_ERROR \<and>
          fst (snd (DoConnectNetwork cfg env network tr)) = network"
    using thread_connect_prefix [OF assms] by blast
qed

lemma thread_slot_facts:
  "mNetworkType thread_slot = kThread"
  "mThread (mData thread_slot) = dataset_example"
  "mEnabled thread_slot = 0"
  by (simp_all add: thread_slot_def AddThread_slot_def example_env_def dataset_example_def
      kMaxThreadDatasetLen_def Let_def thread_upd_def)

lemma thread_apply_example: "thread_apply example_env thread_slot = SetThreadProvision dataset_example"
  by (simp add: thread_apply_def thread_slot_facts) (simp add: example_env_def)

lemma thread_apply_failing:
  "thread_apply (failing_env c) thread_slot = SetThreadProvision dataset_example"
  by (simp add: thread_apply_def thread_slot_facts) (simp add: failing_env_def example_env_def)

theorem thread_connect_order_witness:
  "mNetworkType thread_slot = kThread \<and> CHIP_DEVICE_CONFIG_ENABLE_THREAD example_config \<and>
   platform_result (failing_env (SetThreadProvision dataset_example)) [] (SetThreadEnabled False)
     = CHIP_NO_ERROR \<and>
   platform_result (failing_env (SetThreadProvision dataset_example)) [SetThreadEnabled False]
     (SetThreadProvision dataset_example) = CHIP_ERROR_OTHER 172 \<and>
   DoConnectNetwork example_config (failing_env (SetThreadProvision dataset_example))
     thread_slot [] =
     (CHIP_ERROR_OTHER 172, thread_slot,
      [SetThreadEnabled False, SetThreadProvision dataset_example]) \<and>
   DoConnectNetwork example_config example_env thread_slot [] =
     (CHIP_NO_ERROR, thread_slot\<lparr>mEnabled := 1\<rparr>,
      [SetThreadEnabled False, SetThreadProvision dataset_example, SetThreadEnabled True])"
proof -
  let ?env = "failing_env (SetThreadProvision dataset_example)"
  have p: "platform_result ?env tr c =
      (if c = SetThreadProvision dataset_example then CHIP_ERROR_OTHER 172 else CHIP_NO_ERROR)"
    for tr c
    by (simp add: failing_env_def)
  have q: "platform_result example_env tr c = CHIP_NO_ERROR" for tr c
    by (simp add: example_env_def)
  have pre: "thread_prelude example_config = [SetThreadEnabled False]"
    by (simp add: thread_prelude_def thread_disable_def)
  from thread_connect_order [OF thread_slot_facts(1) config_example(2), of ?env "[]"]
  have a: "DoConnectNetwork example_config ?env thread_slot [] =
     (CHIP_ERROR_OTHER 172, thread_slot,
      [SetThreadEnabled False, SetThreadProvision dataset_example])"
    by (simp add: p pre thread_apply_failing thread_disable_def)
  from thread_connect_order [OF thread_slot_facts(1) config_example(2), of example_env "[]"]
  have b: "DoConnectNetwork example_config example_env thread_slot [] =
     (CHIP_NO_ERROR, thread_slot\<lparr>mEnabled := 1\<rparr>,
      [SetThreadEnabled False, SetThreadProvision dataset_example, SetThreadEnabled True])"
    by (simp add: q pre thread_apply_example thread_enable_def)
  from a b thread_slot_facts(1) show ?thesis by (simp add: p)
qed

text \<open>
  The claim as written fails on a Linux target, where a connect that succeeds issues the
  apply and enable calls only, and on any target when the disable call fails, where it is
  the only call issued.
\<close>

theorem thread_connect_order_counterexample:
  "mNetworkType thread_slot = kThread \<and>
   DoConnectNetwork linux_config example_env thread_slot [] =
     (CHIP_NO_ERROR, thread_slot\<lparr>mEnabled := 1\<rparr>,
      [SetThreadProvision dataset_example, SetThreadEnabled True]) \<and>
   DoConnectNetwork example_config (failing_env (SetThreadEnabled False)) thread_slot [] =
     (CHIP_ERROR_OTHER 172, thread_slot, [SetThreadEnabled False])"
proof -
  have a: "DoConnectNetwork linux_config example_env thread_slot [] =
     (CHIP_NO_ERROR, thread_slot\<lparr>mEnabled := 1\<rparr>,
      [SetThreadProvision dataset_example, SetThreadEnabled True])"
    by (simp add: DoConnectNetwork_Thread [OF thread_slot_facts(1) config_example(5)]
        thread_prelude_def thread_apply_example thread_enable_def)
      (simp add: example_env_def)
  have b: "DoConnectNetwork example_config (failing_env (SetThreadEnabled False)) thread_slot [] =
     (CHIP_ERROR_OTHER 172, thread_slot, [SetThreadEnabled False])"
    by (simp add: DoConnectNetwork_Thread [OF thread_slot_facts(1) config_example(2)]
        thread_disable_def)
      (simp add: failing_env_def)
  from a b thread_slot_facts(1) show ?thesis by simp
qed

subsection \<open>The connect command\<close>

lemma only_enabled_of_refl: "only_enabled_of j t t"
  by (simp add: only_enabled_of_def list_all_iff)

lemma only_enabled_of_update: "only_enabled_of j t (t[j := (t ! j)\<lparr>mEnabled := v\<rparr>])"
proof -
  have "t[j := (t ! j)\<lparr>mEnabled := v\<rparr>] ! k =
          (t ! k)\<lparr>mEnabled := mEnabled (t[j := (t ! j)\<lparr>mEnabled := v\<rparr>] ! k)\<rparr> \<and>
        (k = j \<or> t[j := (t ! j)\<lparr>mEnabled := v\<rparr>] ! k = t ! k)"
    if "k < length t" for k
    using that by (cases "k = j") simp_all
  then show ?thesis by (simp add: only_enabled_of_def list_all_iff)
qed

lemma home_slot_facts:
  "mNetworkType home_slot = kWiFi"
  "network_id home_slot = ssid_home"
  "unat (mNetworkIDLen home_slot) = 4"
  "slot_wf home_slot"
  "mEnabled home_slot = 0"
proof -
  have v: "length ssid_home \<le> 32" "length credentials_secret123 \<le> 64"
    by (simp_all add: ssid_home_def credentials_secret123_def)
  note f = AddWiFi_slot_valid [OF v, of zero_NetworkInfo]
  show "mNetworkType home_slot = kWiFi" "network_id home_slot = ssid_home"
    "mEnabled home_slot = 0"
    using f by (simp_all add: home_slot_def)
  show "unat (mNetworkIDLen home_slot) = 4"
    using f(5) by (simp add: home_slot_def ssid_home_def)
  show "slot_wf home_slot"
    using f(6) [OF slot_wf_zero] by (simp add: home_slot_def)
qed

lemma ethernet_slot_facts:
  "mNetworkType ethernet_slot = kEthernet"
  "network_id ethernet_slot = ssid_home"
  "unat (mNetworkIDLen ethernet_slot) = 4"
  "slot_wf ethernet_slot"
  using home_slot_facts
  by (simp_all add: ethernet_slot_def network_id_def slot_wf_def)

lemma id_matches_home: "id_matches home_slot ssid_home" "\<not> id_matches home_slot id_absent"
  using id_matches_iff [of home_slot] home_slot_facts
  by (simp_all add: size_defs) (simp add: ssid_home_def id_absent_def)

lemma id_matches_ethernet: "id_matches ethernet_slot ssid_home"
  using id_matches_iff [of ethernet_slot] ethernet_slot_facts
  by (simp add: size_defs)

lemma id_matches_zero: "\<not> id_matches zero_NetworkInfo nid"
  by (simp add: id_matches_def zero_NetworkInfo_def)

lemma example_tables_nth:
  "home_table ! 0 = home_slot" "ethernet_table ! 0 = ethernet_slot"
  "thread_table ! 0 = thread_slot"
  "0 < k \<Longrightarrow> k < 4 \<Longrightarrow> home_table ! k = zero_NetworkInfo"
  by (simp_all add: home_table_def ethernet_table_def thread_table_def zero_table_def)

lemma first_match_examples:
  "first_match example_config home_table ssid_home = Some 0"
  "first_match example_config ethernet_table ssid_home = Some 0"
  "first_match example_config home_table id_absent = None"
  by (simp_all add: first_match_def upt_4 example_tables_nth id_matches_home
      id_matches_ethernet id_matches_zero)

lemma example_tables_wf:
  "table_wf example_config home_table" "ids_in_range home_table"
  "table_wf example_config ethernet_table" "ids_in_range ethernet_table"
proof -
  have s: "set (zero_table[0 := x]) \<subseteq> insert x {zero_NetworkInfo}" for x
    using set_update_subset_insert [of zero_table 0 x] by (auto simp add: zero_table_def)
  have z: "mNetworkType zero_NetworkInfo = kUndefined" by (simp add: zero_NetworkInfo_def)
  show "table_wf example_config home_table"
    using s [of home_slot] home_slot_facts slot_wf_zero
    by (auto simp add: table_wf_def home_table_def list_all_iff) (simp add: zero_table_def)
  show "table_wf example_config ethernet_table"
    using s [of ethernet_slot] ethernet_slot_facts slot_wf_zero
    by (auto simp add: table_wf_def ethernet_table_def list_all_iff) (simp add: zero_table_def)
  show "ids_in_range home_table"
    using s [of home_slot] home_slot_facts z
    by (auto simp add: ids_in_range_def home_table_def list_all_iff size_defs)
  show "ids_in_range ethernet_table"
    using s [of ethernet_slot] ethernet_slot_facts z
    by (auto simp add: ids_in_range_def ethernet_table_def list_all_iff size_defs)
qed

lemma first_match_by_id:
  assumes "table_wf cfg t" and "ids_in_range t"
    and "j < kMaxNetworks cfg"
    and "mNetworkType (t ! j) \<noteq> kUndefined" and "network_id (t ! j) = nid"
    and "\<forall>k<j. mNetworkType (t ! k) = kUndefined \<or> network_id (t ! k) \<noteq> nid"
  shows "first_match cfg t nid = Some j"
proof -
  have "id_matches (t ! j) nid"
    using id_matches_table [OF assms(1,2,3)] assms(4,5) by simp
  moreover have "\<not> id_matches (t ! k) nid" if "k < j" for k
  proof -
    from that assms(3) have "k < kMaxNetworks cfg" by simp
    from id_matches_table [OF assms(1,2) this] assms(6) that show ?thesis by auto
  qed
  ultimately show ?thesis using assms(3) by (simp add: first_match_Some)
qed

lemma first_match_none_by_id:
  assumes "table_wf cfg t" and "ids_in_range t"
    and "\<forall>k<kMaxNetworks cfg. mNetworkType (t ! k) = kUndefined \<or> network_id (t ! k) \<noteq> nid"
  shows "first_match cfg t nid = None"
  unfolding first_match_None
  using id_matches_table [OF assms(1,2)] assms(3) by auto

lemma DoConnectNetwork_ok_iff:
  "fst (DoConnectNetwork cfg env n tr) = CHIP_NO_ERROR \<longleftrightarrow>
     (mNetworkType n = kWiFi \<and> CHIP_DEVICE_LAYER_TARGET cfg \<and>
      platform_result env tr (wifi_call n) = CHIP_NO_ERROR) \<or>
     (mNetworkType n = kThread \<and> CHIP_DEVICE_CONFIG_ENABLE_THREAD cfg \<and>
      (CHIP_DEVICE_LAYER_TARGET_LINUX cfg \<or>
       platform_result env tr thread_disable = CHIP_NO_ERROR) \<and>
      platform_result env (tr @ thread_prelude cfg) (thread_apply env n) = CHIP_NO_ERROR \<and>
      platform_result env (tr @ thread_prelude cfg @ [thread_apply env n]) thread_enable
        = CHIP_NO_ERROR)"
proof (cases "mNetworkType n")
  case kUndefined
  then show ?thesis by (simp add: DoConnectNetwork_def)
next
  case kEthernet
  then show ?thesis by (simp add: DoConnectNetwork_def)
next
  case kWiFi
  show ?thesis
  proof (cases "CHIP_DEVICE_LAYER_TARGET cfg")
    case True
    with kWiFi show ?thesis by (simp add: DoConnectNetwork_WiFi)
  next
    case False
    with kWiFi show ?thesis by (simp add: DoConnectNetwork_def)
  qed
next
  case kThread
  show ?thesis
  proof (cases "CHIP_DEVICE_CONFIG_ENABLE_THREAD cfg")
    case True
    with kThread show ?thesis by (auto simp add: DoConnectNetwork_Thread)
  next
    case False
    with kThread show ?thesis by (simp add: DoConnectNetwork_def)
  qed
qed

lemma wifi_call_home_ok: "platform_result example_env tr c = CHIP_NO_ERROR"
  by (simp add: example_env_def)

text \<open>
  C7. On a table within its bounds: when no slot other than \<^verbatim>\<open>kUndefined\<close> ones holds
  the requested network id, the answer is \<^verbatim>\<open>kNetworkIDNotFound\<close> and neither the table
  nor the trace of calls changes. When the first slot holding the id is a Wi-Fi profile
  and the build has Wi-Fi, the provisioning call is issued: if it succeeds the answer is
  \<^verbatim>\<open>kSuccess\<close>, that profile's \<^verbatim>\<open>mEnabled\<close> is set and the notifier is called after the
  provisioning call; if it fails the answer is \<^verbatim>\<open>kUnknownError\<close>, the table is unchanged
  and the notifier is not called. For every profile, the answer is \<^verbatim>\<open>kSuccess\<close> exactly
  when a slot matches and every platform call of its connect succeeds; the notifier is
  called, as the last call, exactly when the answer is \<^verbatim>\<open>kSuccess\<close>; and with any other
  answer the table is unchanged.
\<close>

theorem connect_correct:
  assumes "table_wf cfg t" and "ids_in_range t"
  shows "((\<forall>k<kMaxNetworks cfg. mNetworkType (t ! k) = kUndefined \<or> network_id (t ! k) \<noteq> networkID)
            \<longrightarrow> OnConnectNetworkCommandCallbackInternal cfg env networkID breadcrumb timeoutMs t tr
                  = (kNetworkIDNotFound, t, tr)) \<and>
         (\<forall>j. j < kMaxNetworks cfg \<and> mNetworkType (t ! j) = kWiFi \<and>
               network_id (t ! j) = networkID \<and>
               (\<forall>k<j. mNetworkType (t ! k) = kUndefined \<or> network_id (t ! k) \<noteq> networkID) \<and>
               CHIP_DEVICE_LAYER_TARGET cfg \<and>
               platform_result env tr (wifi_call (t ! j)) = CHIP_NO_ERROR
            \<longrightarrow> OnConnectNetworkCommandCallbackInternal cfg env networkID breadcrumb timeoutMs t tr
                  = (kSuccess, t[j := (t ! j)\<lparr>mEnabled := 1\<rparr>],
                     tr @ [wifi_call (t ! j), ConnectNetworkForOperational networkID])) \<and>
         (\<forall>j. j < kMaxNetworks cfg \<and> mNetworkType (t ! j) = kWiFi \<and>
               network_id (t ! j) = networkID \<and>
               (\<forall>k<j. mNetworkType (t ! k) = kUndefined \<or> network_id (t ! k) \<noteq> networkID) \<and>
               CHIP_DEVICE_LAYER_TARGET cfg \<and>
               platform_result env tr (wifi_call (t ! j)) \<noteq> CHIP_NO_ERROR
            \<longrightarrow> OnConnectNetworkCommandCallbackInternal cfg env networkID breadcrumb timeoutMs t tr
                  = (kUnknownError, t, tr @ [wifi_call (t ! j)])) \<and>
         ((fst (OnConnectNetworkCommandCallbackInternal cfg env networkID breadcrumb timeoutMs t tr)
             = kSuccess) =
          (\<exists>j. first_match cfg t networkID = Some j \<and>
             ((mNetworkType (t ! j) = kWiFi \<and> CHIP_DEVICE_LAYER_TARGET cfg \<and>
               platform_result env tr (wifi_call (t ! j)) = CHIP_NO_ERROR) \<or>
              (mNetworkType (t ! j) = kThread \<and> CHIP_DEVICE_CONFIG_ENABLE_THREAD cfg \<and>
               (CHIP_DEVICE_LAYER_TARGET_LINUX cfg \<or>
                platform_result env tr thread_disable = CHIP_NO_ERROR) \<and>
               platform_result env (tr @ thread_prelude cfg) (thread_apply env (t ! j))
                 = CHIP_NO_ERROR \<and>
               platform_result env (tr @ thread_prelude cfg @ [thread_apply env (t ! j)])
                 thread_enable = CHIP_NO_ERROR)))) \<and>
         (\<exists>cs. (\<forall>c\<in>set cs. \<not> is_notifier c) \<and>
               snd (snd (OnConnectNetworkCommandCallbackInternal cfg env networkID breadcrumb
                           timeoutMs t tr)) =
                 (if fst (OnConnectNetworkCommandCallbackInternal cfg env networkID breadcrumb
                            timeoutMs t tr) = kSuccess
                  then tr @ cs @ [ConnectNetworkForOperational networkID]
                  else tr @ cs)) \<and>
         (fst (OnConnectNetworkCommandCallbackInternal cfg env networkID breadcrumb timeoutMs t tr)
             \<noteq> kSuccess
            \<longrightarrow> fst (snd (OnConnectNetworkCommandCallbackInternal cfg env networkID breadcrumb
                             timeoutMs t tr)) = t)"
proof -
  let ?R = "OnConnectNetworkCommandCallbackInternal cfg env networkID breadcrumb timeoutMs t tr"
  have a: "(\<forall>k<kMaxNetworks cfg. mNetworkType (t ! k) = kUndefined \<or> network_id (t ! k) \<noteq> networkID)
      \<longrightarrow> ?R = (kNetworkIDNotFound, t, tr)"
  proof
    assume "\<forall>k<kMaxNetworks cfg. mNetworkType (t ! k) = kUndefined \<or> network_id (t ! k) \<noteq> networkID"
    from first_match_none_by_id [OF assms this]
    show "?R = (kNetworkIDNotFound, t, tr)"
      by (simp add: OnConnect_unfold)
  qed
  have b: "\<forall>j. j < kMaxNetworks cfg \<and> mNetworkType (t ! j) = kWiFi \<and>
         network_id (t ! j) = networkID \<and>
         (\<forall>k<j. mNetworkType (t ! k) = kUndefined \<or> network_id (t ! k) \<noteq> networkID) \<and>
         CHIP_DEVICE_LAYER_TARGET cfg \<and>
         platform_result env tr (wifi_call (t ! j)) = CHIP_NO_ERROR
      \<longrightarrow> ?R = (kSuccess, t[j := (t ! j)\<lparr>mEnabled := 1\<rparr>],
               tr @ [wifi_call (t ! j), ConnectNetworkForOperational networkID])"
  proof (intro allI impI)
    fix j
    assume h: "j < kMaxNetworks cfg \<and> mNetworkType (t ! j) = kWiFi \<and>
         network_id (t ! j) = networkID \<and>
         (\<forall>k<j. mNetworkType (t ! k) = kUndefined \<or> network_id (t ! k) \<noteq> networkID) \<and>
         CHIP_DEVICE_LAYER_TARGET cfg \<and>
         platform_result env tr (wifi_call (t ! j)) = CHIP_NO_ERROR"
    then have fm: "first_match cfg t networkID = Some j"
      using first_match_by_id [OF assms, of j networkID] by simp
    from h have "DoConnectNetwork cfg env (t ! j) tr =
        (CHIP_NO_ERROR, (t ! j)\<lparr>mEnabled := 1\<rparr>, tr @ [wifi_call (t ! j)])"
      by (simp add: DoConnectNetwork_WiFi)
    with fm show "?R = (kSuccess, t[j := (t ! j)\<lparr>mEnabled := 1\<rparr>],
           tr @ [wifi_call (t ! j), ConnectNetworkForOperational networkID])"
      by (simp add: OnConnect_unfold)
  qed
  have c: "\<forall>j. j < kMaxNetworks cfg \<and> mNetworkType (t ! j) = kWiFi \<and>
         network_id (t ! j) = networkID \<and>
         (\<forall>k<j. mNetworkType (t ! k) = kUndefined \<or> network_id (t ! k) \<noteq> networkID) \<and>
         CHIP_DEVICE_LAYER_TARGET cfg \<and>
         platform_result env tr (wifi_call (t ! j)) \<noteq> CHIP_NO_ERROR
      \<longrightarrow> ?R = (kUnknownError, t, tr @ [wifi_call (t ! j)])"
  proof (intro allI impI)
    fix j
    assume h: "j < kMaxNetworks cfg \<and> mNetworkType (t ! j) = kWiFi \<and>
         network_id (t ! j) = networkID \<and>
         (\<forall>k<j. mNetworkType (t ! k) = kUndefined \<or> network_id (t ! k) \<noteq> networkID) \<and>
         CHIP_DEVICE_LAYER_TARGET cfg \<and>
         platform_result env tr (wifi_call (t ! j)) \<noteq> CHIP_NO_ERROR"
    then have fm: "first_match cfg t networkID = Some j"
      using first_match_by_id [OF assms, of j networkID] by simp
    from h have "DoConnectNetwork cfg env (t ! j) tr =
        (platform_result env tr (wifi_call (t ! j)), t ! j, tr @ [wifi_call (t ! j)])"
      by (simp add: DoConnectNetwork_WiFi)
    with fm h show "?R = (kUnknownError, t, tr @ [wifi_call (t ! j)])"
      by (simp add: OnConnect_unfold)
  qed
  have d: "(fst ?R = kSuccess) =
      (\<exists>j. first_match cfg t networkID = Some j \<and>
         ((mNetworkType (t ! j) = kWiFi \<and> CHIP_DEVICE_LAYER_TARGET cfg \<and>
           platform_result env tr (wifi_call (t ! j)) = CHIP_NO_ERROR) \<or>
          (mNetworkType (t ! j) = kThread \<and> CHIP_DEVICE_CONFIG_ENABLE_THREAD cfg \<and>
           (CHIP_DEVICE_LAYER_TARGET_LINUX cfg \<or>
            platform_result env tr thread_disable = CHIP_NO_ERROR) \<and>
           platform_result env (tr @ thread_prelude cfg) (thread_apply env (t ! j))
             = CHIP_NO_ERROR \<and>
           platform_result env (tr @ thread_prelude cfg @ [thread_apply env (t ! j)])
             thread_enable = CHIP_NO_ERROR)))"
  proof (cases "first_match cfg t networkID")
    case None
    then show ?thesis by (simp add: OnConnect_unfold)
  next
    case (Some j)
    then have "(fst ?R = kSuccess) = (fst (DoConnectNetwork cfg env (t ! j) tr) = CHIP_NO_ERROR)"
      by (simp add: OnConnect_unfold)
    with Some show ?thesis
      by (simp add: DoConnectNetwork_ok_iff)
  qed
  have e: "\<exists>cs. (\<forall>c\<in>set cs. \<not> is_notifier c) \<and>
      snd (snd ?R) = (if fst ?R = kSuccess then tr @ cs @ [ConnectNetworkForOperational networkID]
                      else tr @ cs)"
  proof (cases "first_match cfg t networkID")
    case None
    then have "?R = (kNetworkIDNotFound, t, tr)" by (simp add: OnConnect_unfold)
    then show ?thesis by (intro exI [of _ "[]"]) simp
  next
    case (Some j)
    from DoConnectNetwork_trace [of cfg env "t ! j" tr] obtain cs where
      cs: "snd (snd (DoConnectNetwork cfg env (t ! j) tr)) = tr @ cs" "\<forall>c\<in>set cs. \<not> is_notifier c"
      by blast
    with Some show ?thesis
      by (intro exI [of _ cs]) (simp add: OnConnect_unfold)
  qed
  have f: "fst ?R \<noteq> kSuccess \<longrightarrow> fst (snd ?R) = t"
    by (cases "first_match cfg t networkID") (simp_all add: OnConnect_unfold)
  from a b c d e f show ?thesis by (intro conjI)
qed

theorem connect_correct_witness:
  "table_wf example_config home_table \<and> ids_in_range home_table \<and>
   mNetworkType (home_table ! 0) = kWiFi \<and> network_id (home_table ! 0) = ssid_home \<and>
   CHIP_DEVICE_LAYER_TARGET example_config \<and>
   platform_result example_env [] (wifi_call (home_table ! 0)) = CHIP_NO_ERROR \<and>
   OnConnectNetworkCommandCallbackInternal example_config example_env ssid_home 0 0 home_table []
     = (kSuccess, home_table[0 := (home_table ! 0)\<lparr>mEnabled := 1\<rparr>],
        [] @ [wifi_call (home_table ! 0), ConnectNetworkForOperational ssid_home]) \<and>
   platform_result (failing_env (wifi_call home_slot)) [] (wifi_call (home_table ! 0))
     = CHIP_ERROR_OTHER 172 \<and>
   OnConnectNetworkCommandCallbackInternal example_config (failing_env (wifi_call home_slot))
       ssid_home 0 0 home_table []
     = (kUnknownError, home_table, [] @ [wifi_call (home_table ! 0)]) \<and>
   first_match example_config home_table id_absent = None \<and>
   OnConnectNetworkCommandCallbackInternal example_config example_env id_absent 0 0 home_table []
     = (kNetworkIDNotFound, home_table, [])"
proof -
  note c = connect_correct [OF example_tables_wf(1,2)]
  have h0: "0 < kMaxNetworks example_config \<and> mNetworkType (home_table ! 0) = kWiFi \<and>
       network_id (home_table ! 0) = ssid_home \<and>
       (\<forall>k<0. mNetworkType (home_table ! k) = kUndefined \<or> network_id (home_table ! k) \<noteq> ssid_home) \<and>
       CHIP_DEVICE_LAYER_TARGET example_config"
    by (simp add: example_tables_nth home_slot_facts)
  have ok: "platform_result example_env [] (wifi_call (home_table ! 0)) = CHIP_NO_ERROR"
    by (rule wifi_call_home_ok)
  have bad: "platform_result (failing_env (wifi_call home_slot)) [] (wifi_call (home_table ! 0))
      = CHIP_ERROR_OTHER 172"
    by (simp add: example_tables_nth failing_env_def)
  from c [where networkID = ssid_home and env = example_env and tr = "[]"
      and breadcrumb = 0 and timeoutMs = 0] h0 ok
  have a: "OnConnectNetworkCommandCallbackInternal example_config example_env ssid_home 0 0
      home_table []
     = (kSuccess, home_table[0 := (home_table ! 0)\<lparr>mEnabled := 1\<rparr>],
        [] @ [wifi_call (home_table ! 0), ConnectNetworkForOperational ssid_home])"
    by blast
  from bad have bad': "platform_result (failing_env (wifi_call home_slot)) []
      (wifi_call (home_table ! 0)) \<noteq> CHIP_NO_ERROR"
    by simp
  from c [where networkID = ssid_home and env = "failing_env (wifi_call home_slot)"
      and tr = "[]" and breadcrumb = 0 and timeoutMs = 0] h0 bad'
  have u: "OnConnectNetworkCommandCallbackInternal example_config
      (failing_env (wifi_call home_slot)) ssid_home 0 0 home_table []
     = (kUnknownError, home_table, [] @ [wifi_call (home_table ! 0)])"
    by blast
  have n: "\<forall>k<kMaxNetworks example_config.
      mNetworkType (home_table ! k) = kUndefined \<or> network_id (home_table ! k) \<noteq> id_absent"
  proof (intro allI impI)
    fix k assume "k < kMaxNetworks example_config"
    then have "k = 0 \<or> (0 < k \<and> k < 4)" by auto
    then show "mNetworkType (home_table ! k) = kUndefined \<or> network_id (home_table ! k) \<noteq> id_absent"
    proof
      assume "k = 0"
      then show ?thesis
        by (simp add: example_tables_nth home_slot_facts ssid_home_def id_absent_def)
    next
      assume "0 < k \<and> k < 4"
      then show ?thesis by (simp add: example_tables_nth zero_NetworkInfo_def)
    qed
  qed
  from c [where networkID = id_absent and env = example_env and tr = "[]"
      and breadcrumb = 0 and timeoutMs = 0] n
  have b: "OnConnectNetworkCommandCallbackInternal example_config example_env id_absent 0 0
      home_table [] = (kNetworkIDNotFound, home_table, [])"
    by blast
  from a u b h0 ok bad example_tables_wf(1,2) first_match_examples(3) show ?thesis by simp
qed

subsection \<open>What a connect can change\<close>

text \<open>
  C10. On a table within its bounds, a connect changes nothing when no slot matches;
  when the first matching slot is \<open>j\<close>, the table keeps its length, every slot keeps
  every field but \<^verbatim>\<open>mEnabled\<close>, and every slot but \<open>j\<close> is unchanged, whether the connect
  succeeds or fails.
\<close>

theorem connect_frame:
  assumes "table_wf cfg t" and "ids_in_range t"
  shows "(case first_match cfg t networkID of
            None \<Rightarrow>
              fst (snd (OnConnectNetworkCommandCallbackInternal cfg env networkID breadcrumb
                          timeoutMs t tr)) = t
          | Some j \<Rightarrow>
              only_enabled_of j t
                (fst (snd (OnConnectNetworkCommandCallbackInternal cfg env networkID breadcrumb
                             timeoutMs t tr))))"
  by (cases "first_match cfg t networkID")
    (simp_all add: OnConnect_unfold only_enabled_of_refl only_enabled_of_update)

theorem connect_frame_witness:
  "table_wf example_config home_table \<and> ids_in_range home_table \<and>
   first_match example_config home_table ssid_home = Some 0 \<and>
   fst (OnConnectNetworkCommandCallbackInternal example_config example_env ssid_home 0 0
          home_table []) = kSuccess \<and>
   only_enabled_of 0 home_table
     (fst (snd (OnConnectNetworkCommandCallbackInternal example_config example_env ssid_home 0 0
                  home_table [])))"
proof -
  have s: "fst (OnConnectNetworkCommandCallbackInternal example_config example_env ssid_home 0 0
          home_table []) = kSuccess"
    by (simp add: OnConnect_unfold first_match_examples example_tables_nth
        DoConnectNetwork_WiFi home_slot_facts wifi_call_home_ok)
  from connect_frame [OF example_tables_wf(1,2), where networkID = ssid_home
      and env = example_env and tr = "[]" and breadcrumb = 0 and timeoutMs = 0] s
  show ?thesis
    by (simp add: first_match_examples example_tables_wf)
qed

subsection \<open>Connecting an Ethernet profile\<close>

text \<open>
  C8, as amended. When the slot a connect matches is an Ethernet profile,
  \<^verbatim>\<open>DoConnectNetwork\<close> returns \<^verbatim>\<open>CHIP_ERROR_NOT_IMPLEMENTED\<close> without a platform call and
  without touching the profile, and the caller is answered \<^verbatim>\<open>kUnknownError\<close>, which is the
  answer for every error \<^verbatim>\<open>DoConnectNetwork\<close> returns, the platform's among them.
\<close>

theorem connect_ethernet:
  assumes "table_wf cfg t" and "ids_in_range t"
    and "first_match cfg t networkID = Some j"
  shows "(mNetworkType (t ! j) = kEthernet \<longrightarrow>
            DoConnectNetwork cfg env (t ! j) tr = (CHIP_ERROR_NOT_IMPLEMENTED, t ! j, tr) \<and>
            OnConnectNetworkCommandCallbackInternal cfg env networkID breadcrumb timeoutMs t tr
              = (kUnknownError, t, tr)) \<and>
         (fst (DoConnectNetwork cfg env (t ! j) tr) \<noteq> CHIP_NO_ERROR \<longrightarrow>
            fst (OnConnectNetworkCommandCallbackInternal cfg env networkID breadcrumb timeoutMs t tr)
              = kUnknownError)"
  using assms(3)
  by (simp add: OnConnect_unfold DoConnectNetwork_Ethernet)

theorem connect_ethernet_witness:
  "table_wf example_config ethernet_table \<and> ids_in_range ethernet_table \<and>
   first_match example_config ethernet_table ssid_home = Some 0 \<and>
   mNetworkType (ethernet_table ! 0) = kEthernet \<and>
   DoConnectNetwork example_config example_env (ethernet_table ! 0) []
     = (CHIP_ERROR_NOT_IMPLEMENTED, ethernet_table ! 0, []) \<and>
   OnConnectNetworkCommandCallbackInternal example_config example_env ssid_home 0 0
     ethernet_table [] = (kUnknownError, ethernet_table, [])"
proof -
  have e: "mNetworkType (ethernet_table ! 0) = kEthernet"
    by (simp add: example_tables_nth ethernet_slot_facts)
  from connect_ethernet [OF example_tables_wf(3,4) first_match_examples(2),
      where env = example_env and tr = "[]" and breadcrumb = 0 and timeoutMs = 0] e
  show ?thesis
    by (simp add: example_tables_wf first_match_examples)
qed

text \<open>
  The claim as written fails in the status the caller sees: the connect of the Ethernet
  profile and the connect of a Wi-Fi profile whose provisioning call fails on the platform
  are both answered \<^verbatim>\<open>kUnknownError\<close>, although \<^verbatim>\<open>DoConnectNetwork\<close> returned different
  errors.
\<close>

theorem connect_ethernet_counterexample:
  "mNetworkType ethernet_slot = kEthernet \<and>
   fst (DoConnectNetwork example_config example_env ethernet_slot []) = CHIP_ERROR_NOT_IMPLEMENTED \<and>
   fst (OnConnectNetworkCommandCallbackInternal example_config example_env ssid_home 0 0
          ethernet_table []) = kUnknownError \<and>
   mNetworkType home_slot = kWiFi \<and>
   fst (DoConnectNetwork example_config (failing_env (wifi_call home_slot)) home_slot [])
     = CHIP_ERROR_OTHER 172 \<and>
   fst (OnConnectNetworkCommandCallbackInternal example_config (failing_env (wifi_call home_slot))
          ssid_home 0 0 home_table []) = kUnknownError"
proof -
  have f: "platform_result (failing_env (wifi_call home_slot)) [] (wifi_call home_slot)
      = CHIP_ERROR_OTHER 172"
    by (simp add: failing_env_def)
  have a: "fst (DoConnectNetwork example_config example_env ethernet_slot [])
      = CHIP_ERROR_NOT_IMPLEMENTED"
    by (simp add: DoConnectNetwork_Ethernet ethernet_slot_facts)
  have b: "fst (OnConnectNetworkCommandCallbackInternal example_config example_env ssid_home 0 0
          ethernet_table []) = kUnknownError"
    by (simp add: OnConnect_unfold first_match_examples example_tables_nth
        DoConnectNetwork_Ethernet ethernet_slot_facts)
  have c: "fst (DoConnectNetwork example_config (failing_env (wifi_call home_slot)) home_slot [])
     = CHIP_ERROR_OTHER 172"
    by (simp add: DoConnectNetwork_WiFi home_slot_facts f)
  have d: "fst (OnConnectNetworkCommandCallbackInternal example_config
          (failing_env (wifi_call home_slot)) ssid_home 0 0 home_table []) = kUnknownError"
    by (simp add: OnConnect_unfold first_match_examples example_tables_nth
        DoConnectNetwork_WiFi home_slot_facts f)
  from a b c d ethernet_slot_facts(1) home_slot_facts(1) show ?thesis by simp
qed

subsection \<open>The bounds of the table are kept\<close>

text \<open>
  The statements about the connect command assume a table within its declared bounds.
  The table the program starts with is one, and the three commands keep it so, provided
  \<^verbatim>\<open>GetExtendedPanId\<close> fills its array of \<^verbatim>\<open>kSizeExtendedPanId\<close> bytes.
\<close>

lemma zero_table_in_range: "ids_in_range zero_table"
  by (simp add: ids_in_range_def zero_table_def zero_NetworkInfo_def list_all_iff)

lemma list_all_update:
  assumes "list_all P t" and "P n"
  shows "list_all P (t[j := n])"
  using assms set_update_subset_insert [of t j n] by (auto simp add: list_all_iff)

lemma AddWiFi_slot_keeps_bounds:
  assumes "slot_wf n" and "mNetworkType n = kUndefined"
  shows "slot_wf (snd (AddWiFi_slot ssid creds n))"
    and "mNetworkType (snd (AddWiFi_slot ssid creds n)) = kUndefined \<or>
         unat (mNetworkIDLen (snd (AddWiFi_slot ssid creds n))) \<le> sizeof_mNetworkID"
proof -
  show "slot_wf (snd (AddWiFi_slot ssid creds n))"
    using assms(1)
    by (simp add: AddWiFi_slot_def Let_def size_defs wifi_upd_def memcpy_def slot_wf_def)
next
  show "mNetworkType (snd (AddWiFi_slot ssid creds n)) = kUndefined \<or>
      unat (mNetworkIDLen (snd (AddWiFi_slot ssid creds n))) \<le> sizeof_mNetworkID"
  proof (cases "length ssid \<le> 32 \<and> length creds \<le> 64")
    case True
    then show ?thesis
      using AddWiFi_slot_valid(5) [of ssid creds n] by (simp add: size_defs)
  next
    case False
    then have bad: "32 < length ssid \<or> 64 < length creds" by auto
    from AddWiFi_slot_invalid(2) [OF bad, of n] assms(2) show ?thesis
      by (simp add: same_header_def)
  qed
qed

lemma AddThread_slot_keeps_bounds:
  assumes "slot_wf n" and "mNetworkType n = kUndefined"
    and "\<forall>d. length (snd (dataset_GetExtendedPanId env d)) = kSizeExtendedPanId"
  shows "slot_wf (snd (AddThread_slot env ds n))"
    and "mNetworkType (snd (AddThread_slot env ds n)) = kUndefined \<or>
         unat (mNetworkIDLen (snd (AddThread_slot env ds n))) \<le> sizeof_mNetworkID"
  using assms
  by (simp_all add: AddThread_slot_def Let_def size_defs thread_upd_def memcpy_def slot_wf_def
      case_prod_beta)

lemma OnAddWiFi_keeps_bounds:
  assumes "table_wf cfg t" and "ids_in_range t"
  shows "table_wf cfg (snd (OnAddOrUpdateWiFiNetworkCommandCallbackInternal cfg ssid creds
                              breadcrumb timeoutMs t)) \<and>
         ids_in_range (snd (OnAddOrUpdateWiFiNetworkCommandCallbackInternal cfg ssid creds
                              breadcrumb timeoutMs t))"
proof (cases "CHIP_DEVICE_LAYER_TARGET cfg")
  case False
  with assms show ?thesis
    by (simp add: OnAddOrUpdateWiFiNetworkCommandCallbackInternal_def)
next
  case True
  show ?thesis
  proof (cases "first_undefined cfg t")
    case None
    with True assms show ?thesis by (simp add: OnAddWiFi_unfold)
  next
    case (Some j)
    from first_undefined_Some [OF Some] assms(1)
    have j: "j < length t" and u: "mNetworkType (t ! j) = kUndefined"
      by (simp_all add: table_wf_def)
    from j assms(1) have w: "slot_wf (t ! j)"
      by (simp add: table_wf_def list_all_length)
    note b = AddWiFi_slot_keeps_bounds [OF w u, of ssid creds]
    from True Some assms b show ?thesis
      by (simp add: OnAddWiFi_unfold case_prod_beta table_wf_def ids_in_range_def
          list_all_update)
  qed
qed

lemma OnAddThread_keeps_bounds:
  assumes "table_wf cfg t" and "ids_in_range t"
    and "\<forall>d. length (snd (dataset_GetExtendedPanId env d)) = kSizeExtendedPanId"
  shows "table_wf cfg (snd (OnAddOrUpdateThreadNetworkCommandCallbackInternal cfg env ds
                              breadcrumb timeoutMs t)) \<and>
         ids_in_range (snd (OnAddOrUpdateThreadNetworkCommandCallbackInternal cfg env ds
                              breadcrumb timeoutMs t))"
proof (cases "CHIP_DEVICE_CONFIG_ENABLE_THREAD cfg")
  case False
  with assms show ?thesis
    by (simp add: OnAddOrUpdateThreadNetworkCommandCallbackInternal_def)
next
  case True
  show ?thesis
  proof (cases "first_undefined cfg t")
    case None
    with True assms show ?thesis by (simp add: OnAddThread_unfold)
  next
    case (Some j)
    from first_undefined_Some [OF Some] assms(1)
    have j: "j < length t" and u: "mNetworkType (t ! j) = kUndefined"
      by (simp_all add: table_wf_def)
    from j assms(1) have w: "slot_wf (t ! j)"
      by (simp add: table_wf_def list_all_length)
    note b = AddThread_slot_keeps_bounds [OF w u assms(3), of ds]
    from True Some assms(1,2) b show ?thesis
      by (simp add: OnAddThread_unfold case_prod_beta table_wf_def ids_in_range_def
          list_all_update)
  qed
qed

lemma OnConnect_keeps_bounds:
  assumes "table_wf cfg t" and "ids_in_range t"
  shows "table_wf cfg (fst (snd (OnConnectNetworkCommandCallbackInternal cfg env nid
                                   breadcrumb timeoutMs t tr))) \<and>
         ids_in_range (fst (snd (OnConnectNetworkCommandCallbackInternal cfg env nid
                                   breadcrumb timeoutMs t tr)))"
proof (cases "first_match cfg t nid")
  case None
  with assms show ?thesis by (simp add: OnConnect_unfold)
next
  case (Some j)
  then have "j < kMaxNetworks cfg" by (simp add: first_match_Some)
  with assms(1) have j: "j < length t" by (simp add: table_wf_def)
  with assms have "slot_wf (t ! j)"
    and "mNetworkType (t ! j) = kUndefined \<or> unat (mNetworkIDLen (t ! j)) \<le> sizeof_mNetworkID"
    by (simp_all add: table_wf_def ids_in_range_def list_all_length)
  then have "slot_wf ((t ! j)\<lparr>mEnabled := 1\<rparr>)"
    and "mNetworkType ((t ! j)\<lparr>mEnabled := 1\<rparr>) = kUndefined \<or>
         unat (mNetworkIDLen ((t ! j)\<lparr>mEnabled := 1\<rparr>)) \<le> sizeof_mNetworkID"
    by (simp_all add: slot_wf_def)
  with Some assms show ?thesis
    by (simp add: OnConnect_unfold table_wf_def ids_in_range_def list_all_update)
qed

end
